theory Spec2Isabelle
  imports Complex_Main
begin

section \<open>Python values\<close>

text \<open>
  A Python \<open>str\<close> is a sequence of Unicode code points; a code point is a natural
  number. \<open>S ''abc''\<close> is the string of an ASCII literal.
\<close>

type_synonym pystr = "nat list"

abbreviation (input) S :: "string \<Rightarrow> pystr" where
  "S s \<equiv> map of_char s"

text \<open>
  A Python \<open>float\<close>: a finite value, an infinity or a NaN. A finite float is embedded
  by the real number it denotes; rounding to 53 bits and overflow are not modelled, so
  arithmetic on finite floats is exact here.
\<close>

datatype py_float = Fin real | PInf | NInf | NaN

text \<open>The numbers the time parser returns: an \<open>int\<close> or a \<open>float\<close>.\<close>

datatype py_num = PyInt int | PyFloat py_float

definition to_float :: "py_num \<Rightarrow> py_float" where
  "to_float n = (case n of PyInt i \<Rightarrow> Fin (of_int i) | PyFloat f \<Rightarrow> f)"

text \<open>\<open>a < b\<close> and \<open>a <= b\<close> on floats: every comparison with a NaN is false.\<close>

fun fl_less :: "py_float \<Rightarrow> py_float \<Rightarrow> bool" where
  "fl_less NaN _ = False"
| "fl_less _ NaN = False"
| "fl_less (Fin a) (Fin b) = (a < b)"
| "fl_less NInf NInf = False"
| "fl_less NInf _ = True"
| "fl_less PInf _ = False"
| "fl_less (Fin a) PInf = True"
| "fl_less (Fin a) NInf = False"

fun fl_le :: "py_float \<Rightarrow> py_float \<Rightarrow> bool" where
  "fl_le NaN _ = False"
| "fl_le _ NaN = False"
| "fl_le (Fin a) (Fin b) = (a \<le> b)"
| "fl_le NInf _ = True"
| "fl_le PInf PInf = True"
| "fl_le PInf _ = False"
| "fl_le (Fin a) PInf = True"
| "fl_le (Fin a) NInf = False"

definition num_less :: "py_num \<Rightarrow> py_num \<Rightarrow> bool" where
  "num_less a b = fl_less (to_float a) (to_float b)"

definition num_le :: "py_num \<Rightarrow> py_num \<Rightarrow> bool" where
  "num_le a b = fl_le (to_float a) (to_float b)"

text \<open>\<open>a + b\<close> and \<open>a - b\<close> on floats (IEEE 754 for the special values).\<close>

fun fl_add :: "py_float \<Rightarrow> py_float \<Rightarrow> py_float" where
  "fl_add NaN _ = NaN"
| "fl_add _ NaN = NaN"
| "fl_add (Fin a) (Fin b) = Fin (a + b)"
| "fl_add PInf NInf = NaN"
| "fl_add NInf PInf = NaN"
| "fl_add PInf _ = PInf"
| "fl_add NInf _ = NInf"
| "fl_add (Fin a) PInf = PInf"
| "fl_add (Fin a) NInf = NInf"

fun fl_neg :: "py_float \<Rightarrow> py_float" where
  "fl_neg (Fin a) = Fin (- a)"
| "fl_neg PInf = NInf"
| "fl_neg NInf = PInf"
| "fl_neg NaN = NaN"

definition fl_sub :: "py_float \<Rightarrow> py_float \<Rightarrow> py_float" where
  "fl_sub a b = fl_add a (fl_neg b)"

text \<open>
  \<open>max(0, x)\<close> for a float \<open>x\<close>: Python's \<open>max\<close> keeps its first argument unless a
  later one is greater, so the result is \<open>0\<close> when \<open>x\<close> is a NaN. The \<open>int\<close> zero
  is embedded as the float of the same value.
\<close>

definition max0 :: "py_float \<Rightarrow> py_float" where
  "max0 x = (if fl_less (Fin 0) x then x else Fin 0)"

section \<open>Python strings\<close>

text \<open>\<open>str.isspace\<close> of one code point: the table of CPython.\<close>

definition isspace :: "nat \<Rightarrow> bool" where
  "isspace c = ((9 \<le> c \<and> c \<le> 13) \<or> (28 \<le> c \<and> c \<le> 32) \<or> c = 133 \<or> c = 160
     \<or> c = 5760 \<or> (8192 \<le> c \<and> c \<le> 8202) \<or> c = 8232 \<or> c = 8233 \<or> c = 8239
     \<or> c = 8287 \<or> c = 12288)"

definition strip :: "pystr \<Rightarrow> pystr" where
  "strip s = rev (dropWhile isspace (rev (dropWhile isspace s)))"

text \<open>
  The white space \<open>int()\<close> and \<open>float()\<close> skip around a number. The conversion first
  turns every white space outside ASCII into a blank and leaves ASCII as it is, then skips
  what C calls white space: the blank and the code points 9 to 13. The four separators
  U+001C to U+001F are white space for \<open>str.isspace\<close> and \<open>str.strip\<close>, and are not
  skipped: \<open>int\<close> of \<open>10\<close> followed by U+001C raises.
\<close>

definition num_space :: "nat \<Rightarrow> bool" where
  "num_space c = (isspace c \<and> \<not> (28 \<le> c \<and> c \<le> 31))"

definition strip_num :: "pystr \<Rightarrow> pystr" where
  "strip_num s = rev (dropWhile num_space (rev (dropWhile num_space s)))"

text \<open>\<open>s.split(c)\<close> for a separator of one character: never the empty list.\<close>

fun split :: "nat \<Rightarrow> pystr \<Rightarrow> pystr list" where
  "split c [] = [[]]"
| "split c (x # xs) =
     (if x = c then [] # split c xs
      else (case split c xs of [] \<Rightarrow> [[x]] | w # ws \<Rightarrow> (x # w) # ws))"

text \<open>\<open>s.replace(a, b)\<close> for single characters, and \<open>s.replace(a, '')\<close>.\<close>

definition replace :: "nat \<Rightarrow> nat \<Rightarrow> pystr \<Rightarrow> pystr" where
  "replace a b s = map (\<lambda>c. if c = a then b else c) s"

definition remove :: "nat \<Rightarrow> pystr \<Rightarrow> pystr" where
  "remove a s = filter (\<lambda>c. c \<noteq> a) s"

text \<open>\<open>sep.join(parts)\<close>.\<close>

fun join :: "pystr \<Rightarrow> pystr list \<Rightarrow> pystr" where
  "join sep [] = []"
| "join sep [p] = p"
| "join sep (p # q # ps) = p @ sep @ join sep (q # ps)"

text \<open>
  The decimal digits \<open>int()\<close> and \<open>float()\<close> accept: the ASCII digits, and the other
  Unicode decimal digits, whose table \<open>uni\<close> (code point to digit value, for code points
  from 128 on) is a parameter.
\<close>

definition py_digit :: "(nat \<Rightarrow> nat option) \<Rightarrow> nat \<Rightarrow> nat option" where
  "py_digit uni c =
     (if c < 128 then (if 48 \<le> c \<and> c \<le> 57 then Some (c - 48) else None) else uni c)"

text \<open>
  A digit part: digits, with single underscores allowed between two digits. The result
  lists the digit values.
\<close>

fun digitpart :: "(nat \<Rightarrow> nat option) \<Rightarrow> pystr \<Rightarrow> nat list option" where
  "digitpart uni [] = None"
| "digitpart uni [c] = map_option (\<lambda>d. [d]) (py_digit uni c)"
| "digitpart uni (c # u # cs) =
     (case py_digit uni c of
        None \<Rightarrow> None
      | Some d \<Rightarrow>
          map_option ((#) d) (if u = 95 then digitpart uni cs else digitpart uni (u # cs)))"

definition digits_value :: "nat list \<Rightarrow> nat" where
  "digits_value ds = foldl (\<lambda>a d. 10 * a + d) 0 ds"

text \<open>A sign, then the rest: \<open>(negative, rest)\<close>.\<close>

definition split_sign :: "pystr \<Rightarrow> bool \<times> pystr" where
  "split_sign s =
     (case s of
        [] \<Rightarrow> (False, [])
      | c # cs \<Rightarrow> if c = 45 then (True, cs) else if c = 43 then (False, cs) else (False, s))"

text \<open>
  \<open>int(s)\<close> in base ten: \<open>None\<close> where Python raises \<open>ValueError\<close>. Surrounding
  white space (\<open>num_space\<close>) is ignored, a sign may come first, and no whitespace may follow the sign.
\<close>

definition py_int :: "(nat \<Rightarrow> nat option) \<Rightarrow> pystr \<Rightarrow> int option" where
  "py_int uni s =
     (let (neg, u) = split_sign (strip_num s)
      in map_option (\<lambda>ds. if neg then - int (digits_value ds) else int (digits_value ds))
           (digitpart uni u))"

definition ascii_lower :: "nat \<Rightarrow> nat" where
  "ascii_lower c = (if 65 \<le> c \<and> c \<le> 90 then c + 32 else c)"

text \<open>The exponent of a float literal: an optional sign and a digit part.\<close>

definition exponent :: "(nat \<Rightarrow> nat option) \<Rightarrow> pystr \<Rightarrow> int option" where
  "exponent uni s =
     (let (neg, u) = split_sign s
      in map_option (\<lambda>ds. if neg then - int (digits_value ds) else int (digits_value ds))
           (digitpart uni u))"

text \<open>
  The mantissa of a float literal: \<open>digits\<close>, \<open>digits.\<close>, \<open>.digits\<close> or
  \<open>digits.digits\<close>, as the exact decimal it denotes.
\<close>

definition mantissa :: "(nat \<Rightarrow> nat option) \<Rightarrow> pystr \<Rightarrow> real option" where
  "mantissa uni s =
     (let ip = takeWhile (\<lambda>c. c \<noteq> 46) s; rest = dropWhile (\<lambda>c. c \<noteq> 46) s
      in if rest = [] then map_option (\<lambda>ds. real (digits_value ds)) (digitpart uni ip)
         else
           (let fp = tl rest;
                i = (if ip = [] then Some [] else digitpart uni ip);
                f = (if fp = [] then Some [] else digitpart uni fp)
            in if ip = [] \<and> fp = [] then None
               else
                 (case (i, f) of
                    (Some ids, Some fds) \<Rightarrow>
                      Some (real (digits_value ids) + real (digits_value fds) / 10 ^ length fds)
                  | _ \<Rightarrow> None)))"

definition pow10 :: "int \<Rightarrow> real" where
  "pow10 e = (if 0 \<le> e then 10 ^ nat e else 1 / 10 ^ nat (- e))"

text \<open>
  \<open>float(s)\<close>: \<open>None\<close> where Python raises \<open>ValueError\<close>. Surrounding white space
  (\<open>num_space\<close>) is ignored. The literals \<open>inf\<close>, \<open>infinity\<close> and \<open>nan\<close> are read in
  any case; a decimal literal denotes its exact value.
\<close>

definition py_float_of_str :: "(nat \<Rightarrow> nat option) \<Rightarrow> pystr \<Rightarrow> py_float option" where
  "py_float_of_str uni s =
     (let (neg, u) = split_sign (strip_num s);
          l = map ascii_lower u
      in if l = S ''inf'' \<or> l = S ''infinity'' then Some (if neg then NInf else PInf)
         else if l = S ''nan'' then Some NaN
         else
           (let m = takeWhile (\<lambda>c. c \<noteq> 101) l; rest = dropWhile (\<lambda>c. c \<noteq> 101) l;
                e = (if rest = [] then Some 0 else exponent uni (tl rest))
            in (case (mantissa uni m, e) of
                  (Some v, Some k) \<Rightarrow> Some (Fin ((if neg then - v else v) * pow10 k))
                | _ \<Rightarrow> None)))"

section \<open>Paths (pathlib, POSIX flavour)\<close>

text \<open>
  A \<open>Path\<close> as \<open>pathlib\<close> holds it on POSIX: an anchor (empty, \<open>/\<close> or \<open>//\<close>) and
  the components, with empty components and \<open>.\<close> dropped. \<open>os.sep\<close> is \<open>/\<close>. The
  Windows flavour (drive letters, two separators, case-insensitive comparison) is not
  modelled.
\<close>

record path =
  anchor :: pystr
  parts :: "pystr list"

definition os_sep :: nat where
  "os_sep = 47"

definition Path :: "pystr \<Rightarrow> path" where
  "Path s =
     (let n = length (takeWhile (\<lambda>c. c = 47) s)
      in \<lparr>anchor = (if n = 0 then [] else if n = 2 then S ''//'' else S ''/''),
          parts = filter (\<lambda>p. p \<noteq> [] \<and> p \<noteq> S ''.'') (split 47 s)\<rparr>)"

text \<open>\<open>str(p)\<close>.\<close>

definition path_str :: "path \<Rightarrow> pystr" where
  "path_str p =
     (if anchor p = [] \<and> parts p = [] then S ''.'' else anchor p @ join (S ''/'') (parts p))"

text \<open>\<open>p / s\<close> for a string \<open>s\<close>: an absolute right operand replaces the left one.\<close>

definition path_join :: "path \<Rightarrow> pystr \<Rightarrow> path" where
  "path_join p s =
     (let q = Path s
      in if anchor q \<noteq> [] then q else \<lparr>anchor = anchor p, parts = parts p @ parts q\<rparr>)"

text \<open>\<open>p.relative_to(base)\<close>: \<open>None\<close> where pathlib raises \<open>ValueError\<close>.\<close>

definition relative_to :: "path \<Rightarrow> path \<Rightarrow> path option" where
  "relative_to p base =
     (if anchor p = anchor base \<and> take (length (parts base)) (parts p) = parts base
      then Some \<lparr>anchor = [], parts = drop (length (parts base)) (parts p)\<rparr>
      else None)"

definition parent :: "path \<Rightarrow> path" where
  "parent p = p\<lparr>parts := butlast (parts p)\<rparr>"

definition path_name :: "path \<Rightarrow> pystr" where
  "path_name p = (if parts p = [] then [] else last (parts p))"

text \<open>
  The suffix of a file name starts at its last dot, unless that dot is the first or
  the last character. \<open>dot_index\<close> is \<open>name.rfind('.')\<close>, \<open>None\<close> for \<open>-1\<close>.
\<close>

definition dot_index :: "pystr \<Rightarrow> nat option" where
  "dot_index name =
     (if 46 \<in> set name then Some (length name - 1 - length (takeWhile (\<lambda>c. c \<noteq> 46) (rev name)))
      else None)"

definition name_suffix :: "pystr \<Rightarrow> pystr" where
  "name_suffix name =
     (case dot_index name of
        None \<Rightarrow> []
      | Some i \<Rightarrow> if 0 < i \<and> i < length name - 1 then drop i name else [])"

definition name_stem :: "pystr \<Rightarrow> pystr" where
  "name_stem name =
     (case dot_index name of
        None \<Rightarrow> name
      | Some i \<Rightarrow> if 0 < i \<and> i < length name - 1 then take i name else name)"

text \<open>
  \<open>p.with_name(n)\<close>, \<open>p.with_suffix(s)\<close> and \<open>p.with_stem(s)\<close>: \<open>None\<close> where pathlib
  raises \<open>ValueError\<close> (a path with no name, a name that is empty, \<open>.\<close> or holds a
  separator, a suffix that does not start with a dot).
\<close>

definition with_name :: "path \<Rightarrow> pystr \<Rightarrow> path option" where
  "with_name p n =
     (if parts p = [] \<or> n = [] \<or> n = S ''.'' \<or> 47 \<in> set n then None
      else Some (p\<lparr>parts := butlast (parts p) @ [n]\<rparr>))"

definition with_suffix :: "path \<Rightarrow> pystr \<Rightarrow> path option" where
  "with_suffix p s =
     (if 47 \<in> set s \<or> (s \<noteq> [] \<and> (hd s \<noteq> 46 \<or> s = S ''.'')) \<or> path_name p = [] then None
      else with_name p (name_stem (path_name p) @ s))"

definition with_stem :: "path \<Rightarrow> pystr \<Rightarrow> path option" where
  "with_stem p s = with_name p (s @ name_suffix (path_name p))"

section \<open>The environment\<close>

text \<open>
  What a file holds, as far as the pipeline is concerned: a source recording, the
  slice that \<open>librosa.load(source, offset, duration)\<close> decoded, or the image of a segment.
\<close>

datatype content = SourceAudio | Segment pystr py_float py_float | Spectrogram pystr

datatype unlink_result = Unlinked | PermissionError | OtherOSError

text \<open>
  The behaviour of the operating system and of the libraries, which the code only
  observes: the result of a recursive directory scan (\<open>None\<close> where it raises), whether
  a directory can be created, how deleting a file ends, whether decoding, writing and
  rendering succeed or raise, the clock, whether the database raises, and the two Unicode
  tables of the Python runtime for code points from 128 on (decimal digit values, and
  \<open>str.isalnum\<close>).
\<close>

record env =
  rglob :: "path \<Rightarrow> pystr \<Rightarrow> path list option"
  mkdir_ok :: "path \<Rightarrow> bool"
  unlink_outcome :: "path \<Rightarrow> unlink_result"
  load_ok :: "pystr \<Rightarrow> py_float \<Rightarrow> py_float \<Rightarrow> bool"
  write_ok :: "pystr \<Rightarrow> bool"
  render_ok :: "path \<Rightarrow> path \<Rightarrow> bool"
  clock :: int
  select_raises :: bool
  update_raises :: "int \<Rightarrow> bool"
  uni_digit :: "nat \<Rightarrow> nat option"
  uni_alnum :: "nat \<Rightarrow> bool"

type_synonym filesystem = "path \<Rightarrow> content option"

definition exists_file :: "filesystem \<Rightarrow> path \<Rightarrow> bool" where
  "exists_file fs p = (fs p \<noteq> None)"

section \<open>The record store\<close>

text \<open>
  A column of a row read as a dict: the key may be absent (the table has no such
  column), the value may be \<open>NULL\<close> (\<open>None\<close>), or there is a value.
\<close>

datatype 'a column = Absent | Null | Val 'a

text \<open>The values SQLite hands out for a time column: INTEGER, REAL, TEXT or BLOB.\<close>

datatype time_value = TInt int | TFloat py_float | TStr pystr | TBlob

text \<open>
  A row of \<open>bird_detections\<close>, with the columns the pipeline reads or writes. The
  confidence is a finite float, embedded by its value. \<open>created_at\<close> is the timestamp
  as a number that orders the same way.
\<close>

record detection =
  det_id :: int
  session_name :: "pystr column"
  filename :: "pystr column"
  start_time_seconds :: "time_value column"
  end_time_seconds :: "time_value column"
  common_name :: "pystr column"
  confidence :: "real column"
  created_at :: int
  audio_segment_path :: "pystr option"
  spectrogram_path :: "pystr option"

datatype py_error = ValueError | KeyError pystr | TypeError | NotImplementedError

section \<open>file\_manager.py: AudioFileManager\<close>

text \<open>
  \<open>find_source_audio_file\<close>: the priority directories crossed with the extensions,
  then the recursive scan of the project. \<open>Inl\<close> where the scan raises.
\<close>

definition audio_extensions :: "pystr list" where
  "audio_extensions = [S ''.wav'', S ''.mp3'', S ''.flac'', S ''.m4a'', S ''.ogg'']"

definition database_dir :: "path \<Rightarrow> path" where
  "database_dir project_root = path_join project_root (S ''database'')"

definition source_audio_dir :: "path \<Rightarrow> path" where
  "source_audio_dir project_root = path_join (database_dir project_root) (S ''audio'')"

fun scan_all :: "env \<Rightarrow> filesystem \<Rightarrow> path \<Rightarrow> pystr \<Rightarrow> pystr list \<Rightarrow> py_error + pystr option" where
  "scan_all e fs project_root filename_stem [] = Inr None"
| "scan_all e fs project_root filename_stem (ext # exts) =
     (case rglob e project_root (filename_stem @ ext) of
        None \<Rightarrow> Inl NotImplementedError
      | Some found \<Rightarrow>
          (case filter (exists_file fs) found of
             audio_file # _ \<Rightarrow> Inr (Some (path_str audio_file))
           | [] \<Rightarrow> scan_all e fs project_root filename_stem exts))"

definition find_source_audio_file ::
  "env \<Rightarrow> filesystem \<Rightarrow> path \<Rightarrow> pystr \<Rightarrow> py_error + pystr option" where
  "find_source_audio_file e fs project_root filename_stem =
     (let search_dirs = [path_join (source_audio_dir project_root) (S ''completed''),
                         path_join (source_audio_dir project_root) (S ''inbox'')];
          candidates = concat (map (\<lambda>search_dir.
                         map (\<lambda>ext. path_join search_dir (filename_stem @ ext)) audio_extensions)
                         search_dirs)
      in case filter (exists_file fs) candidates of
           potential_path # _ \<Rightarrow> Inr (Some (path_str potential_path))
         | [] \<Rightarrow> scan_all e fs project_root filename_stem audio_extensions)"

text \<open>\<open>generate_session_directory_name\<close>.\<close>

definition safe_chars :: pystr where
  "safe_chars = S ''abcdefghijklmnopqrstuvwxyzABCDEFGHIJKLMNOPQRSTUVWXYZ0123456789_-''"

definition generate_session_directory_name :: "pystr \<Rightarrow> pystr" where
  "generate_session_directory_name name =
     (let safe_name = map (\<lambda>c. if c \<in> set safe_chars then c else 95) name
      in if length safe_name > 100 then take 100 safe_name else safe_name)"

text \<open>
  \<open>get_relative_path\<close> and \<open>resolve_relative_path\<close>. 92 is the backslash, 47 the
  slash.
\<close>

definition get_relative_path :: "path \<Rightarrow> pystr \<Rightarrow> pystr" where
  "get_relative_path project_root absolute_path =
     (let abs_path = Path absolute_path
      in case relative_to abs_path (database_dir project_root) of
           Some rel_path \<Rightarrow> replace 92 47 (path_str rel_path)
         | None \<Rightarrow> replace 92 47 (path_str abs_path))"

definition resolve_relative_path :: "path \<Rightarrow> pystr \<Rightarrow> pystr" where
  "resolve_relative_path project_root relative_path =
     (let normalized_path = replace 47 os_sep relative_path;
          absolute_path = path_join (database_dir project_root) normalized_path
      in path_str absolute_path)"

text \<open>
  \<open>_parse_time_value\<close>. The three attempts on a text, in the order of the source:
  pattern 1 (\<open>10m26s\<close>), pattern 2 (a float literal), pattern 3 (\<open>10:26\<close>). 109 is
  \<open>m\<close>, 115 is \<open>s\<close>, 58 is the colon. An attempt that raises inside its \<open>try\<close> falls
  through to the next one.
\<close>

definition pattern1 :: "(nat \<Rightarrow> nat option) \<Rightarrow> pystr \<Rightarrow> py_num option" where
  "pattern1 uni time_str =
     (if 109 \<in> set time_str \<and> 115 \<in> set time_str then
        (case split 109 (remove 115 time_str) of
           [p0, p1] \<Rightarrow>
             (case py_int uni p0 of
                None \<Rightarrow> None
              | Some minutes \<Rightarrow>
                  (case py_int uni p1 of
                     None \<Rightarrow> None
                   | Some seconds \<Rightarrow> Some (PyInt (minutes * 60 + seconds))))
         | _ \<Rightarrow> None)
      else None)"

definition pattern2 :: "(nat \<Rightarrow> nat option) \<Rightarrow> pystr \<Rightarrow> py_num option" where
  "pattern2 uni time_str = map_option PyFloat (py_float_of_str uni time_str)"

definition pattern3 :: "(nat \<Rightarrow> nat option) \<Rightarrow> pystr \<Rightarrow> py_num option" where
  "pattern3 uni time_str =
     (if 58 \<in> set time_str then
        (case split 58 time_str of
           [p0, p1] \<Rightarrow>
             (case py_int uni p0 of
                None \<Rightarrow> None
              | Some minutes \<Rightarrow>
                  (case py_int uni p1 of
                     None \<Rightarrow> None
                   | Some seconds \<Rightarrow> Some (PyInt (minutes * 60 + seconds))))
         | _ \<Rightarrow> None)
      else None)"

definition parse_time_value :: "(nat \<Rightarrow> nat option) \<Rightarrow> time_value \<Rightarrow> py_error + py_num" where
  "parse_time_value uni time_value =
     (case time_value of
        TInt i \<Rightarrow> Inr (PyFloat (Fin (of_int i)))
      | TFloat f \<Rightarrow> Inr (PyFloat f)
      | TStr s \<Rightarrow>
          (let time_str = strip s
           in case pattern1 uni time_str of
                Some r \<Rightarrow> Inr r
              | None \<Rightarrow>
                  (case pattern2 uni time_str of
                     Some r \<Rightarrow> Inr r
                   | None \<Rightarrow>
                       (case pattern3 uni time_str of
                          Some r \<Rightarrow> Inr r
                        | None \<Rightarrow> Inl ValueError)))
      | TBlob \<Rightarrow> Inl ValueError)"

text \<open>
  \<open>validate_file_paths\<close>. The messages of the source are the constructors of
  \<open>violation\<close>; \<open>ValidationException\<close> is the message of the outer handler.
\<close>

datatype violation =
    MissingField pystr
  | SourceAudioNotFound pystr
  | NegativeStart
  | EndNotAfterStart
  | TimeConversionError
  | BlankSessionName
  | ValidationException

definition is_missing :: "'a column \<Rightarrow> bool" where
  "is_missing c = (case c of Val _ \<Rightarrow> False | _ \<Rightarrow> True)"

definition missing_fields :: "detection \<Rightarrow> violation list" where
  "missing_fields d =
     (if is_missing (filename d) then [MissingField (S ''filename'')] else [])
     @ (if is_missing (session_name d) then [MissingField (S ''session_name'')] else [])
     @ (if is_missing (start_time_seconds d) then [MissingField (S ''start_time_seconds'')] else [])
     @ (if is_missing (end_time_seconds d) then [MissingField (S ''end_time_seconds'')] else [])"

definition time_violations :: "(nat \<Rightarrow> nat option) \<Rightarrow> time_value \<Rightarrow> time_value \<Rightarrow> violation list" where
  "time_violations uni s t =
     (case parse_time_value uni s of
        Inl _ \<Rightarrow> [TimeConversionError]
      | Inr start_time \<Rightarrow>
          (case parse_time_value uni t of
             Inl _ \<Rightarrow> [TimeConversionError]
           | Inr end_time \<Rightarrow>
               (if num_less start_time (PyInt 0) then [NegativeStart] else [])
               @ (if num_le end_time start_time then [EndNotAfterStart] else [])))"

definition validate_file_paths ::
  "env \<Rightarrow> filesystem \<Rightarrow> path \<Rightarrow> detection \<Rightarrow> bool \<times> violation list" where
  "validate_file_paths e fs project_root detection_data =
     (let errors = missing_fields detection_data
      in if errors \<noteq> [] then (False, errors)
         else
           (case (filename detection_data, session_name detection_data,
                  start_time_seconds detection_data, end_time_seconds detection_data) of
              (Val fname, Val sname, Val s, Val t) \<Rightarrow>
                (case find_source_audio_file e fs project_root fname of
                   Inl _ \<Rightarrow> (False, [ValidationException])
                 | Inr source_audio \<Rightarrow>
                     (let errors = (if source_audio = None then [SourceAudioNotFound fname] else [])
                            @ time_violations (uni_digit e) s t
                            @ (if sname = [] \<or> length (strip sname) = 0 then [BlankSessionName] else [])
                      in (errors = [], errors)))
            | _ \<Rightarrow> (False, [ValidationException])))"

section \<open>String formatting\<close>

text \<open>\<open>str(n)\<close> for a natural number: its decimal digits.\<close>

fun digits_of_nat :: "nat \<Rightarrow> pystr" where
  "digits_of_nat n = (if n < 10 then [48 + n] else digits_of_nat (n div 10) @ [48 + n mod 10])"

declare digits_of_nat.simps [simp del]

definition str_int :: "int \<Rightarrow> pystr" where
  "str_int i = (if i < 0 then 45 # digits_of_nat (nat (- i)) else digits_of_nat (nat i))"

definition zfill :: "nat \<Rightarrow> pystr \<Rightarrow> pystr" where
  "zfill w s = replicate (w - length s) 48 @ s"

text \<open>
  \<open>f"{i:03d}"\<close>: at least three characters, the sign counted, zeros after the sign.
\<close>

definition format_03d :: "int \<Rightarrow> pystr" where
  "format_03d i =
     (if i < 0 then 45 # zfill 2 (digits_of_nat (nat (- i))) else zfill 3 (digits_of_nat (nat i)))"

text \<open>
  \<open>f"{x:.2f}"\<close> for a finite float of value \<open>x\<close>: the value is rounded to two
  decimals, a tie going to the even neighbour.
\<close>

definition round_half_even :: "real \<Rightarrow> int" where
  "round_half_even y =
     (let f = \<lfloor>y\<rfloor>; r = y - of_int f
      in if r < 1 / 2 then f else if 1 / 2 < r then f + 1 else if even f then f else f + 1)"

definition format_2f :: "real \<Rightarrow> pystr" where
  "format_2f x =
     (let q = nat (round_half_even (\<bar>x\<bar> * 100))
      in (if x < 0 then [45] else []) @ digits_of_nat (q div 100) @ [46]
         @ zfill 2 (digits_of_nat (q mod 100)))"

text \<open>
  \<open>c.isalnum()\<close>: the ASCII letters and digits, and beyond ASCII the table \<open>uni\<close> of the
  runtime.
\<close>

definition py_isalnum :: "(nat \<Rightarrow> bool) \<Rightarrow> nat \<Rightarrow> bool" where
  "py_isalnum uni c =
     (if c < 128 then (48 \<le> c \<and> c \<le> 57) \<or> (65 \<le> c \<and> c \<le> 90) \<or> (97 \<le> c \<and> c \<le> 122)
      else uni c)"

section \<open>segment\_generator.py: AudioSegmentGenerator\<close>

definition context_seconds :: real where
  "context_seconds = 5"

text \<open>
  \<open>_generate_filename\<close> of the segment generator. 12540 is the long-vowel mark
  (U+30FC), 95 the underscore, 45 the hyphen.
\<close>

definition segment_filename :: "(nat \<Rightarrow> bool) \<Rightarrow> int \<Rightarrow> pystr \<Rightarrow> real \<Rightarrow> pystr" where
  "segment_filename uni detection_id species_name conf =
     (let safe_species = filter (\<lambda>c. py_isalnum uni c \<or> c \<in> set [12540, 95, 45]) species_name
      in S ''detection_'' @ format_03d detection_id @ S ''_'' @ safe_species @ S ''_''
         @ format_2f conf @ S ''.wav'')"

text \<open>
  The decode and the write of \<open>_extract_segment_librosa\<close>: on success the file now
  holds the slice decoded from the source. Any exception ends in \<open>(False, output_path)\<close>.
\<close>

definition load_and_write ::
  "env \<Rightarrow> filesystem \<Rightarrow> path \<Rightarrow> path \<Rightarrow> path \<Rightarrow> py_float \<Rightarrow> py_float \<Rightarrow> filesystem \<times> bool \<times> path" where
  "load_and_write e fs source_path output_path wav_output segment_start segment_duration =
     (if load_ok e (path_str source_path) segment_start segment_duration
         \<and> write_ok e (path_str wav_output)
      then (fs(wav_output \<mapsto> Segment (path_str source_path) segment_start segment_duration),
            True, wav_output)
      else (fs, False, output_path))"

definition extract_segment_librosa ::
  "env \<Rightarrow> filesystem \<Rightarrow> path \<Rightarrow> path \<Rightarrow> py_num \<Rightarrow> py_num \<Rightarrow> filesystem \<times> bool \<times> path" where
  "extract_segment_librosa e fs source_path output_path start_time end_time =
     (let segment_start = max0 (fl_sub (to_float start_time) (Fin context_seconds));
          segment_duration = fl_sub (fl_add (to_float end_time) (Fin context_seconds)) segment_start
      in case with_suffix output_path (S ''.wav'') of
           None \<Rightarrow> (fs, False, output_path)
         | Some wav_output \<Rightarrow>
             if exists_file fs wav_output then
               (case unlink_outcome e wav_output of
                  Unlinked \<Rightarrow>
                    load_and_write e (fs(wav_output := None)) source_path output_path wav_output
                      segment_start segment_duration
                | PermissionError \<Rightarrow>
                    (case with_stem wav_output
                            (name_stem (path_name wav_output) @ S ''_'' @ str_int (clock e)) of
                       None \<Rightarrow> (fs, False, output_path)
                     | Some renamed \<Rightarrow>
                         load_and_write e fs source_path output_path renamed
                           segment_start segment_duration)
                | OtherOSError \<Rightarrow> (fs, False, output_path))
             else load_and_write e fs source_path output_path wav_output
                    segment_start segment_duration)"

datatype segment_error = SourceFileMissing | SegmentFailed | SegmentException

text \<open>
  \<open>generate_segment\<close>. The species name and the confidence may be \<open>None\<close>; formatting
  the file name then raises inside the \<open>try\<close>.
\<close>

definition generate_segment ::
  "env \<Rightarrow> filesystem \<Rightarrow> path \<Rightarrow> pystr \<Rightarrow> py_num \<Rightarrow> py_num \<Rightarrow> pystr \<Rightarrow> int \<Rightarrow> pystr option
     \<Rightarrow> real option \<Rightarrow> filesystem \<times> bool \<times> pystr \<times> segment_error option" where
  "generate_segment e fs base_output_dir source_audio_path start_time end_time sess detection_id
       species_name conf =
     (let source_path = Path source_audio_path
      in if \<not> exists_file fs source_path then (fs, False, [], Some SourceFileMissing)
         else
           (let session_dir = path_join base_output_dir sess
            in if \<not> mkdir_ok e session_dir then (fs, False, [], Some SegmentException)
               else
                 (case (species_name, conf) of
                    (Some sp, Some cf) \<Rightarrow>
                      (let output_filename = segment_filename (uni_alnum e) detection_id sp cf;
                           output_path = path_join session_dir output_filename;
                           (fs', success, actual_output_path) =
                              extract_segment_librosa e fs source_path output_path start_time end_time
                       in if success then
                            (fs', True,
                             S ''audio_segments/'' @ sess @ S ''/'' @ path_name actual_output_path,
                             None)
                          else (fs', False, [], Some SegmentFailed))
                  | _ \<Rightarrow> (fs, False, [], Some SegmentException))))"

section \<open>spectrogram\_generator.py: SpectrogramGenerator\<close>

definition spectrogram_filename :: "(nat \<Rightarrow> bool) \<Rightarrow> int \<Rightarrow> pystr \<Rightarrow> real \<Rightarrow> pystr" where
  "spectrogram_filename uni detection_id species_name conf =
     (let safe_species = filter (\<lambda>c. py_isalnum uni c \<or> c \<in> set [12540, 95, 45]) species_name
      in S ''detection_'' @ format_03d detection_id @ S ''_'' @ safe_species @ S ''_''
         @ format_2f conf @ S ''.png'')"

datatype spectrogram_error = SegmentFileMissing | RenderFailed | RenderException

text \<open>
  \<open>generate_spectrogram\<close>; \<open>_create_melspectrogram\<close> is the oracle \<open>render_ok\<close>.
\<close>

definition generate_spectrogram ::
  "env \<Rightarrow> filesystem \<Rightarrow> path \<Rightarrow> pystr \<Rightarrow> pystr \<Rightarrow> int \<Rightarrow> pystr option \<Rightarrow> real option
     \<Rightarrow> filesystem \<times> bool \<times> pystr \<times> spectrogram_error option" where
  "generate_spectrogram e fs base_output_dir audio_segment_file sess detection_id species_name conf =
     (let segment_path = Path audio_segment_file
      in if \<not> exists_file fs segment_path then (fs, False, [], Some SegmentFileMissing)
         else
           (let session_dir = path_join base_output_dir sess
            in if \<not> mkdir_ok e session_dir then (fs, False, [], Some RenderException)
               else
                 (case (species_name, conf) of
                    (Some sp, Some cf) \<Rightarrow>
                      (let output_filename = spectrogram_filename (uni_alnum e) detection_id sp cf;
                           output_path = path_join session_dir output_filename
                       in if render_ok e segment_path output_path then
                            (fs(output_path \<mapsto> Spectrogram (path_str segment_path)), True,
                             S ''spectrograms/'' @ sess @ S ''/'' @ output_filename, None)
                          else (fs, False, [], Some RenderFailed))
                  | _ \<Rightarrow> (fs, False, [], Some RenderException))))"

section \<open>processing\_manager.py: ProcessingManager\<close>

text \<open>
  The messages of the manager: each constructor is one format string of the source,
  with the values it interpolates (the detection id first).
\<close>

datatype message =
    ValidationFailed int "violation list"
  | SourceNotFound int pystr
  | Completed int bool bool
  | AudioFailed int
  | UpdateFailed int
  | ProcessingError int py_error
  | DetectionNotFound int
  | BulkError py_error


record run_stats =
  processed_count :: nat
  success_count :: nat
  audio_success :: nat
  spectrogram_success :: nat
  error_count :: nat
  errors :: "message list"
  total_pending :: "nat option"

definition initial_stats :: run_stats where
  "initial_stats = \<lparr>processed_count = 0, success_count = 0, audio_success = 0,
     spectrogram_success = 0, error_count = 0, errors = [], total_pending = None\<rparr>"

text \<open>The manager's configuration, and the directories its constructor derives.\<close>

record manager =
  db_path :: path
  enable_spectrogram :: bool

definition database_root :: "manager \<Rightarrow> path" where
  "database_root m = parent (db_path m)"

definition project_root :: "manager \<Rightarrow> path" where
  "project_root m = parent (database_root m)"

definition segments_dir :: "manager \<Rightarrow> path" where
  "segments_dir m = path_join (database_root m) (S ''audio_segments'')"

definition spectrograms_dir :: "manager \<Rightarrow> path" where
  "spectrograms_dir m = path_join (database_root m) (S ''spectrograms'')"

text \<open>What a run changes: the files, the table and the statistics.\<close>

record world =
  files :: filesystem
  rows :: "detection list"
  stats :: run_stats

text \<open>
  \<open>_update_detection_paths\<close>: one \<open>UPDATE\<close> of both path columns where the id matches;
  true when \<open>rowcount > 0\<close>, false when the database raises.
\<close>

definition rowcount :: "detection list \<Rightarrow> int \<Rightarrow> nat" where
  "rowcount tbl detection_id = length (filter (\<lambda>r. det_id r = detection_id) tbl)"

definition update_detection_paths ::
  "env \<Rightarrow> detection list \<Rightarrow> int \<Rightarrow> pystr option \<Rightarrow> pystr option \<Rightarrow> detection list \<times> bool" where
  "update_detection_paths e tbl detection_id audio_path spec_path =
     (if update_raises e detection_id then (tbl, False)
      else
        (map (\<lambda>r. if det_id r = detection_id
                  then r\<lparr>audio_segment_path := audio_path, spectrogram_path := spec_path\<rparr>
                  else r) tbl,
         0 < rowcount tbl detection_id))"

text \<open>Every failure branch of the per-item pipeline: count it, record the message.\<close>

definition item_failed :: "world \<Rightarrow> message \<Rightarrow> world \<times> bool \<times> message" where
  "item_failed w error_msg =
     (w\<lparr>stats := (stats w)\<lparr>error_count := error_count (stats w) + 1,
                            errors := errors (stats w) @ [error_msg]\<rparr>\<rparr>,
      False, error_msg)"

text \<open>\<open>detection.get('common_name', 'Unknown')\<close>.\<close>

definition get_common_name :: "detection \<Rightarrow> pystr option" where
  "get_common_name d =
     (case common_name d of Absent \<Rightarrow> Some (S ''Unknown'') | Null \<Rightarrow> None | Val s \<Rightarrow> Some s)"

text \<open>
  The steps of \<open>_process_single_detection\<close> after the audio step: the optional
  spectrogram, the update of the record, and the verdict.
\<close>

definition render_and_persist ::
  "env \<Rightarrow> manager \<Rightarrow> world \<Rightarrow> detection \<Rightarrow> pystr \<Rightarrow> real option \<Rightarrow> bool \<Rightarrow> pystr
     \<Rightarrow> world \<times> bool \<times> message" where
  "render_and_persist e m w d session_dir_name conf audio_ok audio_rel_path =
     (let detection_id = det_id d;
          audio_path = (if audio_ok then Some audio_rel_path else None);
          w1 = (if audio_ok
                then w\<lparr>stats := (stats w)\<lparr>audio_success := audio_success (stats w) + 1\<rparr>\<rparr>
                else w);
          (w2, spec_path) =
            (if enable_spectrogram m \<and> audio_ok then
               (let audio_abs_path = resolve_relative_path (project_root m) audio_rel_path;
                    (fs', spec_success, spec_rel_path, spec_error) =
                       generate_spectrogram e (files w1) (spectrograms_dir m) audio_abs_path
                         session_dir_name detection_id (get_common_name d) conf
                in if spec_success
                   then (w1\<lparr>files := fs',
                            stats := (stats w1)\<lparr>spectrogram_success :=
                                        spectrogram_success (stats w1) + 1\<rparr>\<rparr>,
                         Some spec_rel_path)
                   else (w1\<lparr>files := fs'\<rparr>, None))
             else (w1, None));
          (tbl', update_success) =
             update_detection_paths e (rows w2) detection_id audio_path spec_path;
          w3 = w2\<lparr>rows := tbl'\<rparr>
      in if update_success then
           (if audio_ok then
              (w3\<lparr>stats := (stats w3)\<lparr>success_count := success_count (stats w3) + 1\<rparr>\<rparr>,
               True, Completed detection_id audio_ok (spec_path \<noteq> None))
            else item_failed w3 (AudioFailed detection_id))
         else item_failed w3 (UpdateFailed detection_id))"

text \<open>
  \<open>_process_single_detection\<close>, up to the audio step: validation, the search for the
  source recording, and the arguments of \<open>generate_segment\<close>. \<open>Inl\<close> is the message of
  the branch that ends the item. A column read with \<open>detection[...]\<close> that is absent raises
  \<open>KeyError\<close>, which the outer handler turns into a message; after a successful validation
  this can only be the confidence.
\<close>

definition prepare_detection ::
  "env \<Rightarrow> manager \<Rightarrow> filesystem \<Rightarrow> detection
     \<Rightarrow> message + (pystr \<times> py_num \<times> py_num \<times> pystr \<times> real option)" where
  "prepare_detection e m fs d =
     (let detection_id = det_id d
      in case validate_file_paths e fs (project_root m) d of
           (False, errs) \<Rightarrow> Inl (ValidationFailed detection_id errs)
         | (True, _) \<Rightarrow>
             (case (filename d, session_name d, start_time_seconds d, end_time_seconds d) of
                (Val fname, Val sname, Val s, Val t) \<Rightarrow>
                  (case find_source_audio_file e fs (project_root m) fname of
                     Inl ex \<Rightarrow> Inl (ProcessingError detection_id ex)
                   | Inr None \<Rightarrow> Inl (SourceNotFound detection_id fname)
                   | Inr (Some source_audio_path) \<Rightarrow>
                       (let session_dir_name = generate_session_directory_name sname
                        in case (parse_time_value (uni_digit e) s, parse_time_value (uni_digit e) t) of
                             (Inr start_time, Inr end_time) \<Rightarrow>
                               (case confidence d of
                                  Absent \<Rightarrow>
                                    Inl (ProcessingError detection_id (KeyError (S ''confidence'')))
                                | Null \<Rightarrow>
                                    Inr (source_audio_path, start_time, end_time, session_dir_name, None)
                                | Val x \<Rightarrow>
                                    Inr (source_audio_path, start_time, end_time, session_dir_name,
                                         Some x))
                           | _ \<Rightarrow> Inl (ProcessingError detection_id ValueError)))
              | _ \<Rightarrow> Inl (ProcessingError detection_id (KeyError []))))"

text \<open>
  \<open>_process_single_detection\<close>: count the item, prepare it, extract the audio, then
  render and persist.
\<close>

definition process_detection :: "env \<Rightarrow> manager \<Rightarrow> world \<Rightarrow> detection \<Rightarrow> world \<times> bool \<times> message" where
  "process_detection e m w0 d =
     (let detection_id = det_id d;
          w = w0\<lparr>stats := (stats w0)\<lparr>processed_count := processed_count (stats w0) + 1\<rparr>\<rparr>
      in case prepare_detection e m (files w) d of
           Inl error_msg \<Rightarrow> item_failed w error_msg
         | Inr (source_audio_path, start_time, end_time, session_dir_name, conf) \<Rightarrow>
             (let (fs', audio_ok, audio_rel_path, audio_error) =
                    generate_segment e (files w) (segments_dir m) source_audio_path start_time
                      end_time session_dir_name detection_id (get_common_name d) conf
              in render_and_persist e m (w\<lparr>files := fs'\<rparr>) d session_dir_name conf audio_ok
                   audio_rel_path))"


definition get_detection_by_id :: "env \<Rightarrow> detection list \<Rightarrow> int \<Rightarrow> detection option" where
  "get_detection_by_id e tbl detection_id =
     (if select_raises e then None else find (\<lambda>r. det_id r = detection_id) tbl)"





text \<open>\<open>process_single_detection\<close>: the entry point for one id.\<close>

definition process_single_detection :: "env \<Rightarrow> manager \<Rightarrow> world \<Rightarrow> int \<Rightarrow> world \<times> bool \<times> message" where
  "process_single_detection e m w detection_id =
     (case get_detection_by_id e (rows w) detection_id of
        None \<Rightarrow> (w, False, DetectionNotFound detection_id)
      | Some d \<Rightarrow> process_detection e m w d)"

section \<open>Example inputs, and the wording of the specification\<close>

text \<open>
  An environment in which every operation succeeds, no file is locked and the runtime
  tables hold nothing beyond ASCII.
\<close>

definition example_env :: env where
  "example_env = \<lparr>rglob = (\<lambda>_ _. Some []), mkdir_ok = (\<lambda>_. True),
     unlink_outcome = (\<lambda>_. Unlinked), load_ok = (\<lambda>_ _ _. True), write_ok = (\<lambda>_. True),
     render_ok = (\<lambda>_ _. True), clock = 1700000000, select_raises = False,
     update_raises = (\<lambda>_. False), uni_digit = (\<lambda>_. None), uni_alnum = (\<lambda>_. False)\<rparr>"

text \<open>\<open>str.isalnum\<close> on the code points 128 to 255 (Latin-1), as CPython has it.\<close>

definition latin1_alnum :: "nat \<Rightarrow> bool" where
  "latin1_alnum c = (c = 170 \<or> c = 178 \<or> c = 179 \<or> c = 181 \<or> c = 185 \<or> c = 186
     \<or> (188 \<le> c \<and> c \<le> 190) \<or> (192 \<le> c \<and> c \<le> 214) \<or> (216 \<le> c \<and> c \<le> 246)
     \<or> (248 \<le> c \<and> c \<le> 255))"

text \<open>
  The sanitisation and the stem as the specification words them: the characters
  \<open>[A-Za-z0-9_-]\<close> and the long-vowel mark are kept, every other character is dropped.
\<close>

definition spec_sanitize :: "pystr \<Rightarrow> pystr" where
  "spec_sanitize species_name =
     filter (\<lambda>c. (48 \<le> c \<and> c \<le> 57) \<or> (65 \<le> c \<and> c \<le> 90) \<or> (97 \<le> c \<and> c \<le> 122)
                  \<or> c = 95 \<or> c = 45 \<or> c = 12540) species_name"

definition spec_stem :: "int \<Rightarrow> pystr \<Rightarrow> real \<Rightarrow> pystr" where
  "spec_stem detection_id species_name conf =
     S ''detection_'' @ format_03d detection_id @ S ''_'' @ spec_sanitize species_name @ S ''_''
     @ format_2f conf"

text \<open>The characters the code keeps in a species name.\<close>

definition kept_species :: "(nat \<Rightarrow> bool) \<Rightarrow> pystr \<Rightarrow> pystr" where
  "kept_species uni species_name =
     filter (\<lambda>c. py_isalnum uni c \<or> c = 12540 \<or> c = 95 \<or> c = 45) species_name"

text \<open>
  The two textual patterns as the specification words them: \<open><int>m<int>s\<close> is an
  integer, the letter \<open>m\<close>, an integer and a final \<open>s\<close>; \<open><int>:<int>\<close> is an integer,
  a colon and an integer; an integer is what \<open>int()\<close> accepts. The value is
  minutes times 60 plus seconds.
\<close>

definition spec_two_ints :: "(nat \<Rightarrow> nat option) \<Rightarrow> nat \<Rightarrow> pystr \<Rightarrow> py_num option" where
  "spec_two_ints uni sep t =
     (let a = takeWhile (\<lambda>c. c \<noteq> sep) t; r = dropWhile (\<lambda>c. c \<noteq> sep) t
      in if r = [] then None
         else (case (py_int uni a, py_int uni (tl r)) of
                 (Some minutes, Some seconds) \<Rightarrow> Some (PyInt (minutes * 60 + seconds))
               | _ \<Rightarrow> None))"

definition spec_ms_value :: "(nat \<Rightarrow> nat option) \<Rightarrow> pystr \<Rightarrow> py_num option" where
  "spec_ms_value uni t =
     (if t \<noteq> [] \<and> last t = 115 then spec_two_ints uni 109 (butlast t) else None)"

definition spec_colon_value :: "(nat \<Rightarrow> nat option) \<Rightarrow> pystr \<Rightarrow> py_num option" where
  "spec_colon_value uni t = spec_two_ints uni 58 t"

text \<open>A project root, a file system with one source recording, and a pending row.\<close>

definition example_root :: path where
  "example_root = Path (S ''/proj'')"

definition example_fs :: filesystem where
  "example_fs = (\<lambda>_. None)(Path (S ''/proj/database/audio/completed/rec1.wav'') \<mapsto> SourceAudio)"

definition example_detection :: detection where
  "example_detection = \<lparr>det_id = 7, session_name = Val (S ''s1''), filename = Val (S ''rec1''),
     start_time_seconds = Val (TFloat (Fin 100)), end_time_seconds = Val (TFloat (Fin 102)),
     common_name = Val (S ''Common Cuckoo''), confidence = Val 0.873, created_at = 1,
     audio_segment_path = None, spectrogram_path = None\<rparr>"


text \<open>
  A path in the normal form of pathlib: its anchor is empty, \<open>/\<close> or \<open>//\<close>, and no
  component is empty, is \<open>.\<close> or holds a slash.
\<close>

definition component_ok :: "pystr \<Rightarrow> bool" where
  "component_ok c = (c \<noteq> [] \<and> c \<noteq> S ''.'' \<and> 47 \<notin> set c)"

definition path_ok :: "path \<Rightarrow> bool" where
  "path_ok p = ((anchor p = [] \<or> anchor p = S ''/'' \<or> anchor p = S ''//'')
                \<and> list_all component_ok (parts p))"

text \<open>
  The extension of a segment file, and the file of a given name in a directory.
\<close>

abbreviation (input) dot_wav :: pystr where
  "dot_wav \<equiv> [46, 119, 97, 118]"

definition child :: "path \<Rightarrow> pystr \<Rightarrow> path" where
  "child dir name = \<lparr>anchor = anchor dir, parts = parts dir @ [name]\<rparr>"

text \<open>
  An environment in which every existing file is locked, and a file system that already
  holds the segment of detection 7.
\<close>

definition locked_env :: env where
  "locked_env = example_env\<lparr>unlink_outcome := (\<lambda>_. PermissionError)\<rparr>"

definition old_segment_fs :: filesystem where
  "old_segment_fs = example_fs(Path (S ''/proj/database/audio_segments/s1/detection_007_CommonCuckoo_0.87.wav'')
      \<mapsto> Segment (S ''/proj/database/audio/completed/rec1.wav'') (Fin 0) (Fin 1))"

text \<open>A manager over \<open>/proj/database/result.db\<close>, and a world with one pending row.\<close>

definition example_manager :: manager where
  "example_manager = \<lparr>db_path = Path (S ''/proj/database/result.db''), enable_spectrogram = True\<rparr>"

definition example_world :: world where
  "example_world = \<lparr>files = example_fs, rows = [example_detection], stats = initial_stats\<rparr>"

text \<open>
  The audio step of an item: what \<open>generate_segment\<close> returns when the item passes
  validation and the source lookup, and whether it succeeded.
\<close>

definition extraction_outcome ::
  "env \<Rightarrow> manager \<Rightarrow> world \<Rightarrow> detection \<Rightarrow> (filesystem \<times> bool \<times> pystr \<times> segment_error option) option" where
  "extraction_outcome e m w d =
     (case prepare_detection e m (files w) d of
        Inl _ \<Rightarrow> None
      | Inr (src, st, en, sd, cf) \<Rightarrow>
          Some (generate_segment e (files w) (segments_dir m) src st en sd (det_id d)
                  (get_common_name d) cf))"

definition audio_extracted :: "env \<Rightarrow> manager \<Rightarrow> world \<Rightarrow> detection \<Rightarrow> bool" where
  "audio_extracted e m w d =
     (case extraction_outcome e m w d of None \<Rightarrow> False | Some (fs', ok, rel, err) \<Rightarrow> ok)"

text \<open>
  Environments in which rendering fails, decoding fails, or the database raises on an
  update; and a row that has been processed before, with its world.
\<close>

definition no_render_env :: env where
  "no_render_env = example_env\<lparr>render_ok := (\<lambda>_ _. False)\<rparr>"

definition no_decode_env :: env where
  "no_decode_env = example_env\<lparr>load_ok := (\<lambda>_ _ _. False)\<rparr>"

definition db_locked_env :: env where
  "db_locked_env = example_env\<lparr>update_raises := (\<lambda>_. True)\<rparr>"

definition processed_detection :: detection where
  "processed_detection = example_detection\<lparr>
     audio_segment_path := Some (S ''audio_segments/s1/detection_007_CommonCuckoo_0.87.wav''),
     spectrogram_path := Some (S ''spectrograms/s1/detection_007_CommonCuckoo_0.87.png'')\<rparr>"

definition processed_world :: world where
  "processed_world = \<lparr>files = example_fs, rows = [processed_detection], stats = initial_stats\<rparr>"





section \<open>Context padding of the extracted segment\<close>

lemma max0_Fin: "max0 (Fin x) = Fin (max 0 x)"
  by (simp add: max0_def max_def)

lemma fl_sub_Fin: "fl_sub (Fin a) (Fin b) = Fin (a - b)"
  by (simp add: fl_sub_def)

lemma load_and_write_content:
  "load_and_write e fs src out wav a b = (fs', True, written) \<Longrightarrow>
     fs' written = Some (Segment (path_str src) a b)"
  by (auto simp: load_and_write_def split: if_splits)

text \<open>
  C4: for a detection window \<open>[s, t]\<close> of finite times, a successful extraction writes
  the slice decoded from offset \<open>max(0, s - 5)\<close> with duration \<open>(t + 5) - max(0, s - 5)\<close>.
  Only the lower bound is clamped: the duration of the source is no argument of the
  extractor, so the slice always ends at \<open>t + 5\<close>.
\<close>

theorem context_padding:
  assumes "to_float start_time = Fin s" and "to_float end_time = Fin t"
    and "extract_segment_librosa e fs source_path output_path start_time end_time
           = (fs', True, written)"
  shows "fs' written = Some (Segment (path_str source_path)
           (Fin (max 0 (s - 5))) (Fin ((t + 5) - max 0 (s - 5))))"
  using assms
  by (auto simp: extract_segment_librosa_def Let_def max0_Fin fl_sub_Fin context_seconds_def
      dest!: load_and_write_content split: option.splits if_splits unlink_result.splits)

theorem context_padding_witness:
  "to_float (PyFloat (Fin 100)) = Fin 100 \<and> to_float (PyFloat (Fin 102)) = Fin 102
   \<and> extract_segment_librosa example_env (\<lambda>_. None) (Path (S ''/proj/database/audio/completed/rec1.wav''))
       (Path (S ''/proj/database/audio_segments/s1/detection_007_CommonCuckoo_0.87.wav''))
       (PyFloat (Fin 100)) (PyFloat (Fin 102))
     = ((\<lambda>_. None)(Path (S ''/proj/database/audio_segments/s1/detection_007_CommonCuckoo_0.87.wav'')
          \<mapsto> Segment (S ''/proj/database/audio/completed/rec1.wav'') (Fin 95) (Fin 12)),
        True, Path (S ''/proj/database/audio_segments/s1/detection_007_CommonCuckoo_0.87.wav''))
   \<and> ((\<lambda>_. None)(Path (S ''/proj/database/audio_segments/s1/detection_007_CommonCuckoo_0.87.wav'')
          \<mapsto> Segment (S ''/proj/database/audio/completed/rec1.wav'') (Fin 95) (Fin 12)))
        (Path (S ''/proj/database/audio_segments/s1/detection_007_CommonCuckoo_0.87.wav''))
     = Some (Segment (path_str (Path (S ''/proj/database/audio/completed/rec1.wav'')))
         (Fin (max 0 (100 - 5))) (Fin ((102 + 5) - max 0 (100 - 5))))"
proof -
  have a: "to_float (PyFloat (Fin 100)) = Fin 100" "to_float (PyFloat (Fin 102)) = Fin 102"
    by (simp_all add: to_float_def)
  have b: "extract_segment_librosa example_env (\<lambda>_. None) (Path (S ''/proj/database/audio/completed/rec1.wav''))
       (Path (S ''/proj/database/audio_segments/s1/detection_007_CommonCuckoo_0.87.wav''))
       (PyFloat (Fin 100)) (PyFloat (Fin 102))
     = ((\<lambda>_. None)(Path (S ''/proj/database/audio_segments/s1/detection_007_CommonCuckoo_0.87.wav'')
          \<mapsto> Segment (S ''/proj/database/audio/completed/rec1.wav'') (Fin 95) (Fin 12)),
        True, Path (S ''/proj/database/audio_segments/s1/detection_007_CommonCuckoo_0.87.wav''))"
    by (simp add: extract_segment_librosa_def load_and_write_def example_env_def Path_def
        with_suffix_def with_name_def path_name_def name_stem_def dot_index_def exists_file_def
        to_float_def max0_def fl_sub_def context_seconds_def path_str_def)
  from context_padding [OF a b] a b show ?thesis by simp
qed


section \<open>File names of the artifacts\<close>

lemma replicate_small:
  "replicate 1 x = [x]" "replicate 2 x = [x, x]" "replicate 3 x = [x, x, x]"
  by (simp_all add: numeral_eq_Suc)

lemma dot_index_append:
  "46 \<notin> set y \<Longrightarrow> dot_index (x @ 46 # y) = Some (length x)"
proof -
  assume a: "46 \<notin> set y"
  then have "takeWhile (\<lambda>c. c \<noteq> 46) (rev y) = rev y"
    by (auto simp: takeWhile_eq_all_conv)
  then have "takeWhile (\<lambda>c. c \<noteq> 46) (rev y @ 46 # rev x) = rev y"
    by (simp add: takeWhile_tail)
  then show ?thesis
    by (simp add: dot_index_def)
qed

lemma name_stem_ext:
  assumes "x \<noteq> []" and "46 \<notin> set y" and "y \<noteq> []"
  shows "name_stem (x @ 46 # y) = x"
  using assms by (simp add: name_stem_def dot_index_append)

text \<open>
  C8 (as amended): the stem of both generated file names is \<open>detection_\<close>, the id
  zero-padded to three characters, the species name filtered to the characters for which
  \<open>str.isalnum\<close> holds (in all of Unicode, not only ASCII) or which are the long-vowel
  mark, the underscore or the hyphen, and the confidence with two decimals; id 7,
  species \<open>Common Cuckoo\<close> and confidence 0.873 give \<open>detection_007_CommonCuckoo_0.87\<close>.
\<close>

theorem filename_stem:
  "name_stem (segment_filename uni detection_id species_name conf)
     = S ''detection_'' @ format_03d detection_id @ S ''_'' @ kept_species uni species_name
       @ S ''_'' @ format_2f conf
   \<and> name_stem (spectrogram_filename uni detection_id species_name conf)
     = name_stem (segment_filename uni detection_id species_name conf)
   \<and> name_stem (segment_filename uni 7 (S ''Common Cuckoo'') 0.873)
     = S ''detection_007_CommonCuckoo_0.87''"
proof -
  let ?x = "S ''detection_'' @ format_03d detection_id @ S ''_'' @ kept_species uni species_name
       @ S ''_'' @ format_2f conf"
  have seg: "segment_filename uni detection_id species_name conf = ?x @ 46 # S ''wav''"
    by (simp add: segment_filename_def kept_species_def)
  have spe: "spectrogram_filename uni detection_id species_name conf = ?x @ 46 # S ''png''"
    by (simp add: spectrogram_filename_def kept_species_def)
  have a: "name_stem (?x @ 46 # S ''wav'') = ?x"
    by (rule name_stem_ext) simp_all
  have b: "name_stem (?x @ 46 # S ''png'') = ?x"
    by (rule name_stem_ext) simp_all
  have c: "name_stem (segment_filename uni 7 (S ''Common Cuckoo'') 0.873)
     = S ''detection_007_CommonCuckoo_0.87''"
    by (simp add: segment_filename_def name_stem_def dot_index_def py_isalnum_def format_03d_def
        format_2f_def zfill_def replicate_small digits_of_nat.simps round_half_even_def)
  show ?thesis
    unfolding seg spe a b using c by simp
qed

text \<open>
  The claim as worded keeps only \<open>[A-Za-z0-9_-]\<close> and the long-vowel mark. The code
  keeps the letter U+00E9 of \<open>Caf\<close>+U+00E9 as well.
\<close>

theorem filename_stem_counterexample:
  "name_stem (segment_filename latin1_alnum 7 (S ''Caf'' @ [233]) 0.873)
     = S ''detection_007_Caf'' @ [233] @ S ''_0.87''
   \<and> spec_stem 7 (S ''Caf'' @ [233]) 0.873 = S ''detection_007_Caf_0.87''
   \<and> name_stem (segment_filename latin1_alnum 7 (S ''Caf'' @ [233]) 0.873)
     \<noteq> spec_stem 7 (S ''Caf'' @ [233]) 0.873"
  by (simp add: segment_filename_def name_stem_def dot_index_def py_isalnum_def format_03d_def
        format_2f_def zfill_def replicate_small digits_of_nat.simps round_half_even_def latin1_alnum_def
        spec_stem_def spec_sanitize_def)


section \<open>The time parser\<close>

lemma digitpart_chars:
  "digitpart uni u = Some ds \<Longrightarrow> c \<in> set u \<Longrightarrow> c = 95 \<or> py_digit uni c \<noteq> None"
proof (induction uni u arbitrary: ds rule: digitpart.induct)
  case (1 uni)
  then show ?case by simp
next
  case (2 uni x)
  then show ?case by auto
next
  case (3 uni x u cs)
  then show ?case
    by (auto split: option.splits if_splits)
qed

lemma strip_chars: "c \<in> set s \<Longrightarrow> c \<in> set (strip_num s) \<or> num_space c"
proof -
  assume a: "c \<in> set s"
  have 1: "s = takeWhile num_space s @ dropWhile num_space s" by simp
  let ?d = "dropWhile num_space s"
  have 2: "rev ?d = takeWhile num_space (rev ?d) @ dropWhile num_space (rev ?d)" by simp
  have "c \<in> set (takeWhile num_space s) \<or> c \<in> set ?d"
    using a 1 by (metis Un_iff set_append)
  moreover have "c \<in> set ?d \<Longrightarrow> c \<in> set (takeWhile num_space (rev ?d)) \<or> c \<in> set (dropWhile num_space (rev ?d))"
    using 2 by (metis Un_iff set_append set_rev)
  ultimately show ?thesis
    by (auto simp: strip_num_def dest: set_takeWhileD)
qed

lemma split_sign_chars:
  "split_sign s = (neg, u) \<Longrightarrow> c \<in> set s \<Longrightarrow> c \<in> set u \<or> c = 45 \<or> c = 43"
  by (auto simp: split_sign_def split: list.splits if_splits)

lemma py_int_chars:
  assumes "py_int uni a = Some n" and "c \<in> set a"
  shows "num_space c \<or> c = 45 \<or> c = 43 \<or> c = 95 \<or> py_digit uni c \<noteq> None"
proof -
  obtain neg u where su: "split_sign (strip_num a) = (neg, u)"
    by (cases "split_sign (strip_num a)")
  with assms(1) obtain ds where d: "digitpart uni u = Some ds"
    by (auto simp: py_int_def)
  from strip_chars [OF assms(2)] show ?thesis
  proof
    assume "c \<in> set (strip_num a)"
    from split_sign_chars [OF su this] digitpart_chars [OF d] show ?thesis by auto
  qed simp
qed

lemma py_int_no_sep:
  "py_int uni a = Some n \<Longrightarrow> 109 \<notin> set a \<and> 115 \<notin> set a \<and> 58 \<notin> set a"
  by (auto dest: py_int_chars simp: num_space_def isspace_def py_digit_def)

lemma split_not_Nil: "split c v \<noteq> []"
  by (induction v) (auto split: list.splits)

lemma split_no_sep: "c \<notin> set a \<Longrightarrow> split c a = [a]"
  by (induction a) auto

lemma split_at_sep: "c \<notin> set a \<Longrightarrow> split c (a @ c # b) = a # split c b"
  by (induction a) auto

lemma split_two:
  "split c t = [p0, p1] \<Longrightarrow> t = p0 @ c # p1 \<and> c \<notin> set p0 \<and> c \<notin> set p1"
proof (induction t arbitrary: p0)
  case Nil
  then show ?case by simp
next
  case (Cons x t)
  show ?case
  proof (cases "x = c")
    case True
    with Cons.prems have p: "p0 = []" "split c t = [p1]" by auto
    have "c \<notin> set t \<and> p1 = t"
    proof (cases "c \<in> set t")
      case True
      then obtain u v where "t = u @ c # v" "c \<notin> set u" by (meson split_list_first)
      then show ?thesis using p(2) split_not_Nil [of c v] by (cases "split c v") (auto simp: split_at_sep)
    next
      case False
      then show ?thesis using p(2) by (simp add: split_no_sep)
    qed
    with True p show ?thesis by simp
  next
    case False
    with Cons.prems obtain w where w: "split c t = [w, p1]" "p0 = x # w"
      by (auto split: list.splits)
    from Cons.IH [OF w(1)] False w(2) show ?thesis by simp
  qed
qed

lemma two_ints_split:
  assumes "py_int uni a = Some x" and "py_int uni b = Some y"
    and "sep = 109 \<or> sep = 58"
  shows "split sep (a @ sep # b) = [a, b]"
proof -
  from assms have "sep \<notin> set a" "sep \<notin> set b"
    using py_int_no_sep by blast+
  then show ?thesis by (simp add: split_at_sep split_no_sep)
qed

lemma spec_two_ints_shape:
  assumes "spec_two_ints uni sep t = Some r"
  obtains a b x y where "t = a @ sep # b" "py_int uni a = Some x" "py_int uni b = Some y"
    "r = PyInt (x * 60 + y)"
proof -
  let ?a = "takeWhile (\<lambda>c. c \<noteq> sep) t" and ?r = "dropWhile (\<lambda>c. c \<noteq> sep) t"
  from assms have ne: "?r \<noteq> []"
    by (auto simp: spec_two_ints_def Let_def split: if_splits)
  then have "hd ?r = sep" using hd_dropWhile [of "\<lambda>c. c \<noteq> sep" t] by auto
  with ne have r: "?r = sep # tl ?r" by (cases ?r) auto
  have t: "t = ?a @ sep # tl ?r"
    using takeWhile_dropWhile_id [of "\<lambda>c. c \<noteq> sep" t] r by metis
  from assms ne obtain x y where "py_int uni ?a = Some x" "py_int uni (tl ?r) = Some y"
    "r = PyInt (x * 60 + y)"
    by (auto simp: spec_two_ints_def Let_def split: if_splits option.splits)
  with t that show ?thesis by blast
qed

lemma pattern3_spec: "pattern3 uni t = spec_colon_value uni t"
proof (cases "spec_colon_value uni t")
  case (Some r)
  then obtain a b x y where s: "t = a @ 58 # b" "py_int uni a = Some x" "py_int uni b = Some y"
    "r = PyInt (x * 60 + y)"
    unfolding spec_colon_value_def by (rule spec_two_ints_shape)
  from two_ints_split [OF s(2,3), of 58] s Some show ?thesis
    by (simp add: pattern3_def)
next
  case None
  show ?thesis
  proof (cases "pattern3 uni t")
    case (Some r)
    then obtain p0 p1 x y where p: "split 58 t = [p0, p1]" "py_int uni p0 = Some x"
      "py_int uni p1 = Some y"
      by (auto simp: pattern3_def split: if_splits list.splits option.splits)
    from split_two [OF p(1)] have t: "t = p0 @ 58 # p1" "58 \<notin> set p0" by auto
    then have "takeWhile (\<lambda>c. c \<noteq> 58) t = p0" "dropWhile (\<lambda>c. c \<noteq> 58) t = 58 # p1"
      by (auto simp: takeWhile_tail dropWhile_append3 takeWhile_eq_all_conv dropWhile_append)
    with p None show ?thesis
      by (simp add: spec_colon_value_def spec_two_ints_def)
  qed (simp add: None)
qed

lemma remove_absent: "c \<notin> set a \<Longrightarrow> remove c a = a"
  by (induction a) (auto simp: remove_def)

lemma remove_append: "remove c (a @ b) = remove c a @ remove c b"
  by (simp add: remove_def)

lemma remove_Cons: "remove c (x # b) = (if x = c then remove c b else x # remove c b)"
  by (simp add: remove_def)

lemma pattern1_spec:
  assumes "spec_ms_value uni t = Some r"
  shows "pattern1 uni t = Some r"
proof -
  from assms have l: "t \<noteq> []" "last t = 115" and s: "spec_two_ints uni 109 (butlast t) = Some r"
    by (auto simp: spec_ms_value_def split: if_splits)
  from s obtain a b x y where s: "butlast t = a @ 109 # b" "py_int uni a = Some x"
    "py_int uni b = Some y" "r = PyInt (x * 60 + y)"
    by (rule spec_two_ints_shape)
  from l s(1) have t: "t = a @ 109 # b @ [115]"
    by (metis append.assoc append_Cons append_butlast_last_id)
  from s(2,3) have n: "115 \<notin> set a" "115 \<notin> set b"
    using py_int_no_sep by blast+
  then have "remove 115 t = a @ 109 # b"
    by (simp add: t remove_append remove_Cons remove_absent)
  with two_ints_split [OF s(2,3), of 109] s t show ?thesis
    by (simp add: pattern1_def)
qed

lemma split_two_iff:
  "(split c t = [p0, p1]) = (t = p0 @ c # p1 \<and> c \<notin> set p0 \<and> c \<notin> set p1)"
proof
  assume "split c t = [p0, p1]"
  then show "t = p0 @ c # p1 \<and> c \<notin> set p0 \<and> c \<notin> set p1" by (rule split_two)
next
  assume "t = p0 @ c # p1 \<and> c \<notin> set p0 \<and> c \<notin> set p1"
  then show "split c t = [p0, p1]" by (simp add: split_at_sep split_no_sep)
qed

lemma pattern1_iff:
  "(pattern1 uni t = Some r)
     = (109 \<in> set t \<and> 115 \<in> set t
        \<and> (\<exists>a b x y. filter (\<lambda>c. c \<noteq> 115) t = a @ 109 # b \<and> 109 \<notin> set a \<and> 109 \<notin> set b
               \<and> py_int uni a = Some x \<and> py_int uni b = Some y \<and> r = PyInt (x * 60 + y)))"
proof
  assume a: "pattern1 uni t = Some r"
  then have ms: "109 \<in> set t" "115 \<in> set t"
    by (auto simp: pattern1_def split: if_splits)
  with a obtain p0 p1 x y where p: "split 109 (remove 115 t) = [p0, p1]" "py_int uni p0 = Some x"
      "py_int uni p1 = Some y" "r = PyInt (x * 60 + y)"
    by (auto simp: pattern1_def split: if_splits list.splits option.splits)
  from split_two [OF p(1)] p ms show "109 \<in> set t \<and> 115 \<in> set t
        \<and> (\<exists>a b x y. filter (\<lambda>c. c \<noteq> 115) t = a @ 109 # b \<and> 109 \<notin> set a \<and> 109 \<notin> set b
               \<and> py_int uni a = Some x \<and> py_int uni b = Some y \<and> r = PyInt (x * 60 + y))"
    unfolding remove_def by blast
next
  assume "109 \<in> set t \<and> 115 \<in> set t
        \<and> (\<exists>a b x y. filter (\<lambda>c. c \<noteq> 115) t = a @ 109 # b \<and> 109 \<notin> set a \<and> 109 \<notin> set b
               \<and> py_int uni a = Some x \<and> py_int uni b = Some y \<and> r = PyInt (x * 60 + y))"
  then obtain a b x y where ms: "109 \<in> set t" "115 \<in> set t"
    and p: "remove 115 t = a @ 109 # b" "109 \<notin> set a" "109 \<notin> set b"
      "py_int uni a = Some x" "py_int uni b = Some y" "r = PyInt (x * 60 + y)"
    unfolding remove_def by blast
  from p(1,2,3) have "split 109 (remove 115 t) = [a, b]"
    by (simp add: split_at_sep split_no_sep)
  with ms p show "pattern1 uni t = Some r" by (simp add: pattern1_def)
qed

lemma pattern3_iff:
  "(pattern3 uni t = Some r)
     = (\<exists>a b x y. t = a @ 58 # b \<and> 58 \<notin> set a \<and> 58 \<notin> set b
               \<and> py_int uni a = Some x \<and> py_int uni b = Some y \<and> r = PyInt (x * 60 + y))"
proof
  assume a: "pattern3 uni t = Some r"
  then obtain p0 p1 x y where p: "split 58 t = [p0, p1]" "py_int uni p0 = Some x"
      "py_int uni p1 = Some y" "r = PyInt (x * 60 + y)"
    by (auto simp: pattern3_def split: if_splits list.splits option.splits)
  from split_two [OF p(1)] p show "\<exists>a b x y. t = a @ 58 # b \<and> 58 \<notin> set a \<and> 58 \<notin> set b
               \<and> py_int uni a = Some x \<and> py_int uni b = Some y \<and> r = PyInt (x * 60 + y)"
    by blast
next
  assume "\<exists>a b x y. t = a @ 58 # b \<and> 58 \<notin> set a \<and> 58 \<notin> set b
               \<and> py_int uni a = Some x \<and> py_int uni b = Some y \<and> r = PyInt (x * 60 + y)"
  then obtain a b x y where p: "t = a @ 58 # b" "58 \<notin> set a" "58 \<notin> set b"
      "py_int uni a = Some x" "py_int uni b = Some y" "r = PyInt (x * 60 + y)"
    by blast
  from p(1,2,3) have "split 58 t = [a, b]"
    by (simp add: split_at_sep split_no_sep)
  with p show "pattern3 uni t = Some r" by (simp add: pattern3_def)
qed

lemmas parse_eval = parse_time_value_def pattern1_def pattern2_def pattern3_def py_int_def
  py_float_of_str_def split_sign_def strip_def strip_num_def num_space_def isspace_def
  ascii_lower_def mantissa_def
  exponent_def py_digit_def digits_value_def pow10_def remove_def

text \<open>
  C3 (as amended): a number is returned as a float of the same value; the four encodings
  of the instant 626 all give the value 626 (the int 626 for the two patterns, which
  equals the float 626.0). A text is stripped and goes through three attempts in order:
  pattern 1, then the float literal, then pattern 3, and the parser raises exactly when
  all three fail. Pattern 1 succeeds with \<open>r\<close> exactly when the text holds an \<open>m\<close> and an
  \<open>s\<close> and, once every \<open>s\<close> is deleted, is \<open>a\<close>, one \<open>m\<close>, \<open>b\<close> with no other \<open>m\<close>, where
  \<open>int()\<close> accepts \<open>a\<close> as \<open>x\<close> and \<open>b\<close> as \<open>y\<close> and \<open>r\<close> is \<open>60 x + y\<close>; so it accepts every
  text of the form \<open><int>m<int>s\<close> with the value the specification gives. Pattern 2 is the
  float parse. Pattern 3 is exactly \<open><int>:<int>\<close>: the text is \<open>a\<close>, the only colon, \<open>b\<close>,
  with \<open>int()\<close> accepting both. \<open>int()\<close> does not skip the separator U+001C, so \<open>10\<close>,
  U+001C, \<open>m26s\<close> raises.
\<close>

theorem time_parser:
  "parse_time_value uni (TInt i) = Inr (PyFloat (Fin (of_int i)))
   \<and> parse_time_value uni (TFloat f) = Inr (PyFloat f)
   \<and> parse_time_value uni (TStr (S ''626.0'')) = Inr (PyFloat (Fin 626))
   \<and> parse_time_value uni (TStr (S ''10m26s'')) = Inr (PyInt 626)
   \<and> parse_time_value uni (TStr (S ''10:26'')) = Inr (PyInt 626)
   \<and> parse_time_value uni (TFloat (Fin 626)) = Inr (PyFloat (Fin 626))
   \<and> to_float (PyInt 626) = Fin 626
   \<and> (\<forall>r. pattern1 uni (strip s) = Some r \<longrightarrow> parse_time_value uni (TStr s) = Inr r)
   \<and> (\<forall>r. pattern1 uni (strip s) = None \<and> pattern2 uni (strip s) = Some r
          \<longrightarrow> parse_time_value uni (TStr s) = Inr r)
   \<and> (\<forall>r. pattern1 uni (strip s) = None \<and> pattern2 uni (strip s) = None
          \<and> pattern3 uni (strip s) = Some r
          \<longrightarrow> parse_time_value uni (TStr s) = Inr r)
   \<and> ((parse_time_value uni (TStr s) = Inl ValueError)
        = (pattern1 uni (strip s) = None \<and> pattern2 uni (strip s) = None
           \<and> pattern3 uni (strip s) = None))
   \<and> (\<forall>r. spec_ms_value uni t = Some r \<longrightarrow> pattern1 uni t = Some r)
   \<and> pattern2 uni t = map_option PyFloat (py_float_of_str uni t)
   \<and> pattern3 uni t = spec_colon_value uni t
   \<and> ((pattern1 uni t = Some v)
        = (109 \<in> set t \<and> 115 \<in> set t
           \<and> (\<exists>a b x y. filter (\<lambda>c. c \<noteq> 115) t = a @ 109 # b \<and> 109 \<notin> set a \<and> 109 \<notin> set b
                  \<and> py_int uni a = Some x \<and> py_int uni b = Some y \<and> v = PyInt (x * 60 + y))))
   \<and> ((pattern3 uni t = Some v)
        = (\<exists>a b x y. t = a @ 58 # b \<and> 58 \<notin> set a \<and> 58 \<notin> set b
                  \<and> py_int uni a = Some x \<and> py_int uni b = Some y \<and> v = PyInt (x * 60 + y)))
   \<and> py_int uni (S ''10'' @ [28]) = None
   \<and> parse_time_value uni (TStr (S ''10'' @ [28] @ S ''m26s'')) = Inl ValueError
   \<and> parse_time_value uni (TStr (S ''10:'' @ [28] @ S ''26'')) = Inl ValueError"
proof -
  have n: "parse_time_value uni (TInt i) = Inr (PyFloat (Fin (of_int i)))"
    "parse_time_value uni (TFloat f) = Inr (PyFloat f)"
    "parse_time_value uni (TFloat (Fin 626)) = Inr (PyFloat (Fin 626))"
    "to_float (PyInt 626) = Fin 626"
    by (simp_all add: parse_time_value_def to_float_def)
  have e1: "parse_time_value uni (TStr (S ''626.0'')) = Inr (PyFloat (Fin 626))"
    by (simp add: parse_eval)
  have e2: "parse_time_value uni (TStr (S ''10m26s'')) = Inr (PyInt 626)"
    by (simp add: parse_eval)
  have e3: "parse_time_value uni (TStr (S ''10:26'')) = Inr (PyInt 626)"
    by (simp add: parse_eval)
  have o: "(\<forall>r. pattern1 uni (strip s) = Some r \<longrightarrow> parse_time_value uni (TStr s) = Inr r)"
    "(\<forall>r. pattern1 uni (strip s) = None \<and> pattern2 uni (strip s) = Some r
          \<longrightarrow> parse_time_value uni (TStr s) = Inr r)"
    "(\<forall>r. pattern1 uni (strip s) = None \<and> pattern2 uni (strip s) = None
          \<and> pattern3 uni (strip s) = Some r
          \<longrightarrow> parse_time_value uni (TStr s) = Inr r)"
    "((parse_time_value uni (TStr s) = Inl ValueError)
        = (pattern1 uni (strip s) = None \<and> pattern2 uni (strip s) = None
           \<and> pattern3 uni (strip s) = None))"
    by (auto simp: parse_time_value_def Let_def split: option.splits)
  have p: "(\<forall>r. spec_ms_value uni t = Some r \<longrightarrow> pattern1 uni t = Some r)"
    "pattern2 uni t = map_option PyFloat (py_float_of_str uni t)"
    "pattern3 uni t = spec_colon_value uni t"
    by (simp_all add: pattern1_spec pattern2_def pattern3_spec)
  note q = pattern1_iff [of uni t v] pattern3_iff [of uni t v]
  have x: "py_int uni (S ''10'' @ [28]) = None"
    "parse_time_value uni (TStr (S ''10'' @ [28] @ S ''m26s'')) = Inl ValueError"
    "parse_time_value uni (TStr (S ''10:'' @ [28] @ S ''26'')) = Inl ValueError"
    by (simp_all add: parse_eval)
  show ?thesis
    by (intro conjI) (fact n e1 e2 e3 o p q x)+
qed

theorem time_parser_witness:
  "pattern1 (\<lambda>_. None) (strip (S '' 10m26s '')) = Some (PyInt 626)
   \<and> parse_time_value (\<lambda>_. None) (TStr (S '' 10m26s '')) = Inr (PyInt 626)
   \<and> spec_ms_value (\<lambda>_. None) (S ''10m26s'') = Some (PyInt 626)
   \<and> pattern1 (\<lambda>_. None) (S ''10m26s'') = Some (PyInt 626)"
proof -
  have a: "pattern1 (\<lambda>_. None) (strip (S '' 10m26s '')) = Some (PyInt 626)"
    by (simp add: parse_eval)
  have b: "spec_ms_value (\<lambda>_. None) (S ''10m26s'') = Some (PyInt 626)"
    by (simp add: spec_ms_value_def spec_two_ints_def parse_eval)
  note t = time_parser [of "\<lambda>_. None" _ _ "S '' 10m26s ''" "S ''10m26s''"]
  note c = t [THEN conjunct2, THEN conjunct2, THEN conjunct2, THEN conjunct2, THEN conjunct2, THEN conjunct2, THEN conjunct2, THEN conjunct1, rule_format, OF a]
  note d = t [THEN conjunct2, THEN conjunct2, THEN conjunct2, THEN conjunct2, THEN conjunct2, THEN conjunct2, THEN conjunct2, THEN conjunct2, THEN conjunct2, THEN conjunct2, THEN conjunct2, THEN conjunct1, rule_format, OF b]
  show ?thesis
    by (intro conjI) (fact a b c d)+
qed

text \<open>
  The claim as worded raises for a text that matches none of \<open><int>m<int>s\<close>, a float
  literal and \<open><int>:<int>\<close>. Pattern 1 of the code deletes every \<open>s\<close> before it splits
  at \<open>m\<close>, so \<open>s10m26\<close> parses to 626 although it has none of the three forms.
\<close>

theorem time_parser_counterexample:
  "parse_time_value (\<lambda>_. None) (TStr (S ''s10m26'')) = Inr (PyInt 626)
   \<and> spec_ms_value (\<lambda>_. None) (strip (S ''s10m26'')) = None
   \<and> py_float_of_str (\<lambda>_. None) (strip (S ''s10m26'')) = None
   \<and> spec_colon_value (\<lambda>_. None) (strip (S ''s10m26'')) = None"
  by (simp add: spec_ms_value_def spec_colon_value_def spec_two_ints_def parse_eval)


section \<open>Validation of a detection\<close>





section \<open>Relative and absolute paths\<close>

lemma join_Cons:
  "join sep (p # ps) = (if ps = [] then p else p @ sep @ join sep ps)"
  by (cases ps) simp_all

lemma split_join:
  assumes "list_all component_ok ps" and "ps \<noteq> []"
  shows "split 47 (join [47] ps) = ps"
  using assms
proof (induction ps)
  case Nil
  then show ?case by simp
next
  case (Cons p ps)
  then have p: "47 \<notin> set p" by (simp add: component_ok_def)
  show ?case
  proof (cases "ps = []")
    case True
    with p show ?thesis by (simp add: split_no_sep)
  next
    case False
    with Cons have "split 47 (join [47] ps) = ps" by simp
    with p False show ?thesis by (simp add: join_Cons split_at_sep)
  qed
qed

lemma filter_components:
  "list_all component_ok ps \<Longrightarrow> filter (\<lambda>p. p \<noteq> [] \<and> p \<noteq> [46]) ps = ps"
  by (induction ps) (auto simp: component_ok_def)

lemma join_hd:
  assumes "list_all component_ok ps" and "ps \<noteq> []"
  shows "join [47] ps \<noteq> [] \<and> hd (join [47] ps) \<noteq> 47"
proof -
  from assms obtain p qs where ps: "ps = p # qs" by (cases ps) auto
  with assms have "p \<noteq> []" "hd p \<noteq> 47"
    by (cases p; auto simp: component_ok_def)+
  then show ?thesis by (cases p) (auto simp: ps join_Cons)
qed

lemma join_no_backslash:
  "\<forall>c\<in>set ps. 92 \<notin> set c \<Longrightarrow> 92 \<notin> set (join [47] ps)"
  by (induction ps) (auto simp: join_Cons)

lemma Path_join_parts:
  assumes "list_all component_ok ps"
  shows "Path (join [47] ps) = \<lparr>anchor = [], parts = ps\<rparr>"
proof (cases "ps = []")
  case True
  then show ?thesis by (simp add: Path_def)
next
  case False
  from join_hd [OF assms False] have "takeWhile (\<lambda>c. c = 47) (join [47] ps) = []"
    by (cases "join [47] ps") auto
  then show ?thesis
    using split_join [OF assms False] filter_components [OF assms] by (simp add: Path_def)
qed

lemma Path_path_str:
  assumes "path_ok p"
  shows "Path (path_str p) = p"
proof -
  from assms have c: "list_all component_ok (parts p)" by (simp add: path_ok_def)
  let ?j = "join [47] (parts p)"
  have j: "S ''/'' = [47]" "S ''.'' = [46]" by simp_all
  have tw: "takeWhile (\<lambda>c. c = 47) ?j = []"
  proof (cases "parts p = []")
    case False
    from join_hd [OF c False] show ?thesis by (cases ?j) auto
  qed simp
  have sp: "filter (\<lambda>p. p \<noteq> [] \<and> p \<noteq> S ''.'') (split 47 ?j) = parts p"
  proof (cases "parts p = []")
    case False
    then show ?thesis using split_join [OF c False] filter_components [OF c] by simp
  qed simp
  from assms consider "anchor p = []" | "anchor p = S ''/''" | "anchor p = S ''//''"
    by (auto simp: path_ok_def)
  then show ?thesis
  proof cases
    case 1
    then show ?thesis using Path_join_parts [OF c]
      by (cases "parts p = []") (simp_all add: path_str_def Path_def)
  next
    case 2
    then show ?thesis using tw sp by (simp add: path_str_def Path_def)
  next
    case 3
    then show ?thesis using tw sp by (simp add: path_str_def Path_def)
  qed
qed

lemma replace_absent: "a \<notin> set s \<Longrightarrow> replace a b s = s"
  by (induction s) (auto simp: replace_def)

lemma replace_same: "replace a a s = s"
  by (induction s) (auto simp: replace_def)

text \<open>
  C10 (as amended): on POSIX, for a project root in normal form and every path below its
  database directory whose further components are in normal form and hold no backslash,
  \<open>get_relative_path\<close> followed by \<open>resolve_relative_path\<close> gives back the path's string.
  Both conversions are functions of the configured root and their argument alone.
\<close>

theorem path_round_trip:
  assumes "path_ok proot"
    and "list_all component_ok rest"
    and "\<forall>c\<in>set rest. 92 \<notin> set c"
  shows "resolve_relative_path proot
           (get_relative_path proot
              (path_str \<lparr>anchor = anchor (database_dir proot),
                         parts = parts (database_dir proot) @ rest\<rparr>))
         = path_str \<lparr>anchor = anchor (database_dir proot),
                      parts = parts (database_dir proot) @ rest\<rparr>"
proof -
  let ?db = "database_dir proot"
  let ?p = "\<lparr>anchor = anchor ?db, parts = parts ?db @ rest\<rparr>"
  have db: "?db = \<lparr>anchor = anchor proot, parts = parts proot @ [S ''database'']\<rparr>"
    by (simp add: database_dir_def path_join_def Path_def)
  from assms(1,2) have ok: "path_ok ?p"
    by (simp add: db path_ok_def component_ok_def)
  have rel: "relative_to (Path (path_str ?p)) ?db = Some \<lparr>anchor = [], parts = rest\<rparr>"
    by (simp add: Path_path_str [OF ok] relative_to_def)
  have str: "replace 92 47 (path_str \<lparr>anchor = [], parts = rest\<rparr>)
               = path_str \<lparr>anchor = [], parts = rest\<rparr>"
    using join_no_backslash [OF assms(3)] by (intro replace_absent) (simp add: path_str_def)
  have bk: "Path (path_str \<lparr>anchor = [], parts = rest\<rparr>) = \<lparr>anchor = [], parts = rest\<rparr>"
    by (rule Path_path_str) (simp add: path_ok_def assms(2))
  show ?thesis
    by (simp add: get_relative_path_def resolve_relative_path_def rel str os_sep_def replace_same
        path_join_def bk)
qed

theorem path_round_trip_witness:
  "path_ok example_root
   \<and> list_all component_ok [S ''audio_segments'', S ''s1'', S ''detection_007_CommonCuckoo_0.87.wav'']
   \<and> get_relative_path example_root
        (S ''/proj/database/audio_segments/s1/detection_007_CommonCuckoo_0.87.wav'')
     = S ''audio_segments/s1/detection_007_CommonCuckoo_0.87.wav''
   \<and> resolve_relative_path example_root
        (get_relative_path example_root
           (S ''/proj/database/audio_segments/s1/detection_007_CommonCuckoo_0.87.wav''))
     = S ''/proj/database/audio_segments/s1/detection_007_CommonCuckoo_0.87.wav''"
proof -
  let ?rest = "[S ''audio_segments'', S ''s1'', S ''detection_007_CommonCuckoo_0.87.wav'']"
  have a: "path_ok example_root"
    by (simp add: path_ok_def component_ok_def example_root_def Path_def)
  have b: "list_all component_ok ?rest"
    by (simp add: component_ok_def)
  have c: "\<forall>c\<in>set ?rest. 92 \<notin> set c"
    by simp
  have s: "path_str \<lparr>anchor = anchor (database_dir example_root),
                      parts = parts (database_dir example_root) @ ?rest\<rparr>
           = S ''/proj/database/audio_segments/s1/detection_007_CommonCuckoo_0.87.wav''"
    by (simp add: path_str_def database_dir_def path_join_def Path_def example_root_def)
  have g: "get_relative_path example_root
        (S ''/proj/database/audio_segments/s1/detection_007_CommonCuckoo_0.87.wav'')
     = S ''audio_segments/s1/detection_007_CommonCuckoo_0.87.wav''"
    by (simp add: get_relative_path_def database_dir_def path_join_def Path_def example_root_def
        relative_to_def path_str_def replace_def)
  from path_round_trip [OF a b c] a b g show ?thesis
    unfolding s by simp
qed

text \<open>
  The claim as worded holds for every absolute path under the database root. On POSIX a
  file name may hold a backslash; \<open>get_relative_path\<close> turns it into a slash, and the
  path that comes back differs from the original.
\<close>

theorem path_round_trip_counterexample:
  "get_relative_path example_root (S ''/proj/database/a'' @ [92] @ S ''b.wav'') = S ''a/b.wav''
   \<and> resolve_relative_path example_root
        (get_relative_path example_root (S ''/proj/database/a'' @ [92] @ S ''b.wav''))
      = S ''/proj/database/a/b.wav''
   \<and> resolve_relative_path example_root
        (get_relative_path example_root (S ''/proj/database/a'' @ [92] @ S ''b.wav''))
      \<noteq> S ''/proj/database/a'' @ [92] @ S ''b.wav''
   \<and> path_str (Path (S ''/proj/database/a'' @ [92] @ S ''b.wav''))
      = S ''/proj/database/a'' @ [92] @ S ''b.wav''
   \<and> relative_to (Path (S ''/proj/database/a'' @ [92] @ S ''b.wav'')) (database_dir example_root)
      \<noteq> None"
  by (simp add: resolve_relative_path_def get_relative_path_def Path_def database_dir_def
      path_join_def relative_to_def path_str_def replace_def os_sep_def example_root_def)


section \<open>Overwriting an existing segment\<close>

lemma digits_of_nat_chars: "c \<in> set (digits_of_nat n) \<Longrightarrow> 48 \<le> c \<and> c \<le> 57"
proof (induction n rule: digits_of_nat.induct)
  case (1 n)
  show ?case
  proof (cases "n < 10")
    case True
    with 1(2) show ?thesis by (simp add: digits_of_nat.simps [of n])
  next
    case False
    with 1 show ?thesis
      by (auto simp: digits_of_nat.simps [of n])
  qed
qed

lemma digits_of_nat_not_Nil: "digits_of_nat n \<noteq> []"
  by (simp add: digits_of_nat.simps [of n])

lemma str_int_chars: "c \<in> set (str_int i) \<Longrightarrow> c = 45 \<or> (48 \<le> c \<and> c \<le> 57)"
  by (auto simp: str_int_def dest: digits_of_nat_chars split: if_splits)

lemma zfill_chars: "c \<in> set (zfill w s) \<Longrightarrow> c = 48 \<or> c \<in> set s"
  by (auto simp: zfill_def)

lemma format_03d_chars: "c \<in> set (format_03d i) \<Longrightarrow> c = 45 \<or> (48 \<le> c \<and> c \<le> 57)"
  by (auto simp: format_03d_def dest!: zfill_chars dest: digits_of_nat_chars split: if_splits)

lemma format_2f_chars:
  "c \<in> set (format_2f x) \<Longrightarrow> c = 45 \<or> c = 46 \<or> (48 \<le> c \<and> c \<le> 57)"
  by (auto simp: format_2f_def Let_def dest!: zfill_chars dest: digits_of_nat_chars split: if_splits)

lemma segment_filename_shape:
  obtains x where "segment_filename uni i sp cf = x @ dot_wav" "x \<noteq> []" "47 \<notin> set x"
proof -
  let ?x = "S ''detection_'' @ format_03d i @ [95]
     @ filter (\<lambda>c. py_isalnum uni c \<or> c \<in> set [12540, 95, 45]) sp @ [95] @ format_2f cf"
  have 1: "segment_filename uni i sp cf = ?x @ dot_wav"
    by (simp add: segment_filename_def)
  have 2: "?x \<noteq> []" by simp
  have 3: "47 \<notin> set ?x"
    by (auto simp: py_isalnum_def dest: format_03d_chars format_2f_chars)
  from 1 2 3 that show ?thesis by blast
qed

lemma name_suffix_ext:
  assumes "x \<noteq> []" and "46 \<notin> set y" and "y \<noteq> []"
  shows "name_suffix (x @ 46 # y) = 46 # y"
  using assms by (simp add: name_suffix_def dot_index_append)

lemma path_join_component:
  assumes "n \<noteq> []" and "47 \<notin> set n" and "n \<noteq> [46]"
  shows "path_join dir n = child dir n"
proof -
  from assms have "takeWhile (\<lambda>c. c = 47) n = []" by (cases n) auto
  with assms show ?thesis
    by (simp add: path_join_def Path_def child_def split_no_sep)
qed

lemma child_name: "path_name (child dir n) = n"
  by (simp add: child_def path_name_def)

lemma with_name_child:
  assumes "n \<noteq> []" and "47 \<notin> set n" and "n \<noteq> [46]"
  shows "with_name (child dir m) n = Some (child dir n)"
  using assms by (simp add: with_name_def child_def)

lemma child_inject: "(child dir m = child dir n) = (m = n)"
  by (simp add: child_def)

lemma extract_written:
  assumes x: "x \<noteq> []" "47 \<notin> set x"
    and ex: "extract_segment_librosa e fs src (child dir (x @ dot_wav)) st en
               = (fs', True, actual)"
  shows "actual = (if exists_file fs (child dir (x @ dot_wav))
                      \<and> unlink_outcome e (child dir (x @ dot_wav)) = PermissionError
                   then child dir (x @ [95] @ str_int (clock e) @ dot_wav)
                   else child dir (x @ dot_wav))
         \<and> (\<exists>a b. fs' actual = Some (Segment (path_str src) a b))
         \<and> (actual \<noteq> child dir (x @ dot_wav)
             \<longrightarrow> fs' (child dir (x @ dot_wav)) = fs (child dir (x @ dot_wav)))"
proof -
  let ?req = "x @ dot_wav"
  let ?ts = "str_int (clock e)"
  let ?new = "x @ 95 # ?ts @ dot_wav"
  have stem: "name_stem ?req = x" using x name_stem_ext [of x "[119, 97, 118]"] by simp
  have suf: "name_suffix ?req = dot_wav" using x name_suffix_ext [of x "[119, 97, 118]"] by simp
  have ws: "with_suffix (child dir ?req) (dot_wav) = Some (child dir ?req)"
    using x by (simp add: with_suffix_def child_name stem with_name_child)
  have ts: "47 \<notin> set ?ts" using str_int_chars [of 47 "clock e"] by auto
  have wst: "with_stem (child dir ?req) (x @ 95 # ?ts) = Some (child dir ?new)"
    using x ts by (simp add: with_stem_def child_name suf with_name_child)
  have ne: "child dir ?new \<noteq> child dir ?req"
    by (simp add: child_inject)
  from ex show ?thesis
    using ne
    by (auto simp: extract_segment_librosa_def Let_def ws wst child_name stem load_and_write_def
        split: if_splits unlink_result.splits)
qed

text \<open>
  C9: when \<open>generate_segment\<close> succeeds, the relative path it returns is
  \<open>audio_segments/<session>/<name>\<close> where \<open><name>\<close> is the file of the session directory
  that now holds the decoded slice. The name is the requested one (an existing file was
  deleted and written again, or there was none), unless the requested file existed and its
  deletion raised \<open>PermissionError\<close>: then it is the requested stem, an underscore, the
  unix time and \<open>.wav\<close>, and the requested file is left as it was.
\<close>

theorem overwrite_or_sibling:
  assumes "generate_segment e fs base src st en sess i (Some sp) (Some cf) = (fs', True, rel, err)"
  shows "(\<exists>name. rel = S ''audio_segments/'' @ sess @ S ''/'' @ name
            \<and> (\<exists>a b. fs' (child (path_join base sess) name)
                       = Some (Segment (path_str (Path src)) a b))
            \<and> name = (if exists_file fs (child (path_join base sess)
                                             (segment_filename (uni_alnum e) i sp cf))
                          \<and> unlink_outcome e (child (path_join base sess)
                                                (segment_filename (uni_alnum e) i sp cf))
                             = PermissionError
                       then name_stem (segment_filename (uni_alnum e) i sp cf) @ [95]
                            @ str_int (clock e) @ dot_wav
                       else segment_filename (uni_alnum e) i sp cf)
            \<and> (name \<noteq> segment_filename (uni_alnum e) i sp cf \<longrightarrow>
                 fs' (child (path_join base sess) (segment_filename (uni_alnum e) i sp cf))
                 = fs (child (path_join base sess) (segment_filename (uni_alnum e) i sp cf))))"
proof -
  let ?dir = "path_join base sess"
  obtain x where x: "segment_filename (uni_alnum e) i sp cf = x @ dot_wav" "x \<noteq> []"
    "47 \<notin> set x"
    by (rule segment_filename_shape)
  let ?req = "x @ dot_wav"
  have pj: "path_join ?dir ?req = child ?dir ?req"
    using x by (intro path_join_component) simp_all
  have stem: "name_stem ?req = x" using x name_stem_ext [of x "[119, 97, 118]"] by simp
  from assms obtain actual where
    ex: "extract_segment_librosa e fs (Path src) (child ?dir ?req) st en = (fs', True, actual)"
    and rel: "rel = S ''audio_segments/'' @ sess @ S ''/'' @ path_name actual"
    by (auto simp: generate_segment_def Let_def x pj split: if_splits prod.splits)
  note w = extract_written [OF x(2,3) ex]
  show ?thesis
  proof (cases "exists_file fs (child ?dir ?req) \<and> unlink_outcome e (child ?dir ?req) = PermissionError")
    case True
    with w have a: "actual = child ?dir (x @ [95] @ str_int (clock e) @ dot_wav)" by simp
    show ?thesis
      apply (rule exI [of _ "x @ [95] @ str_int (clock e) @ dot_wav"])
      using w True a rel by (simp add: x stem child_name child_inject)
  next
    case False
    with w have a: "actual = child ?dir ?req" by auto
    show ?thesis
      apply (rule exI [of _ ?req])
      using w False a rel by (auto simp: x stem child_name)
  qed
qed

lemmas segment_eval = generate_segment_def extract_segment_librosa_def load_and_write_def
  segment_filename_def py_isalnum_def format_03d_def format_2f_def zfill_def replicate_small
  digits_of_nat.simps round_half_even_def str_int_def Path_def path_join_def path_str_def
  path_name_def with_suffix_def with_stem_def with_name_def name_stem_def name_suffix_def
  dot_index_def exists_file_def to_float_def max0_def fl_sub_def context_seconds_def child_def

theorem overwrite_or_sibling_witness:
  "generate_segment locked_env old_segment_fs (Path (S ''/proj/database/audio_segments''))
      (S ''/proj/database/audio/completed/rec1.wav'') (PyFloat (Fin 100)) (PyFloat (Fin 102))
      (S ''s1'') 7 (Some (S ''Common Cuckoo'')) (Some 0.873)
   = (old_segment_fs(Path (S ''/proj/database/audio_segments/s1/detection_007_CommonCuckoo_0.87_1700000000.wav'')
        \<mapsto> Segment (S ''/proj/database/audio/completed/rec1.wav'') (Fin 95) (Fin 12)),
      True, S ''audio_segments/s1/detection_007_CommonCuckoo_0.87_1700000000.wav'', None)
   \<and> (\<exists>name. (S ''audio_segments/s1/detection_007_CommonCuckoo_0.87_1700000000.wav'') = S ''audio_segments/'' @ (S ''s1'') @ S ''/'' @ name
            \<and> (\<exists>a b. (old_segment_fs(Path (S ''/proj/database/audio_segments/s1/detection_007_CommonCuckoo_0.87_1700000000.wav'')
        \<mapsto> Segment (S ''/proj/database/audio/completed/rec1.wav'') (Fin 95) (Fin 12))) (child (path_join (Path (S ''/proj/database/audio_segments'')) (S ''s1'')) name)
                       = Some (Segment (path_str (Path (S ''/proj/database/audio/completed/rec1.wav''))) a b))
            \<and> name = (if exists_file old_segment_fs (child (path_join (Path (S ''/proj/database/audio_segments'')) (S ''s1''))
                                             (segment_filename (uni_alnum locked_env) 7 (S ''Common Cuckoo'') 0.873))
                          \<and> unlink_outcome locked_env (child (path_join (Path (S ''/proj/database/audio_segments'')) (S ''s1''))
                                                (segment_filename (uni_alnum locked_env) 7 (S ''Common Cuckoo'') 0.873))
                             = PermissionError
                       then name_stem (segment_filename (uni_alnum locked_env) 7 (S ''Common Cuckoo'') 0.873) @ [95]
                            @ str_int (clock locked_env) @ dot_wav
                       else segment_filename (uni_alnum locked_env) 7 (S ''Common Cuckoo'') 0.873)
            \<and> (name \<noteq> segment_filename (uni_alnum locked_env) 7 (S ''Common Cuckoo'') 0.873 \<longrightarrow>
                 (old_segment_fs(Path (S ''/proj/database/audio_segments/s1/detection_007_CommonCuckoo_0.87_1700000000.wav'')
        \<mapsto> Segment (S ''/proj/database/audio/completed/rec1.wav'') (Fin 95) (Fin 12))) (child (path_join (Path (S ''/proj/database/audio_segments'')) (S ''s1'')) (segment_filename (uni_alnum locked_env) 7 (S ''Common Cuckoo'') 0.873))
                 = old_segment_fs (child (path_join (Path (S ''/proj/database/audio_segments'')) (S ''s1'')) (segment_filename (uni_alnum locked_env) 7 (S ''Common Cuckoo'') 0.873))))"
proof -
  have g: "generate_segment locked_env old_segment_fs (Path (S ''/proj/database/audio_segments''))
      (S ''/proj/database/audio/completed/rec1.wav'') (PyFloat (Fin 100)) (PyFloat (Fin 102))
      (S ''s1'') 7 (Some (S ''Common Cuckoo'')) (Some 0.873)
   = (old_segment_fs(Path (S ''/proj/database/audio_segments/s1/detection_007_CommonCuckoo_0.87_1700000000.wav'')
        \<mapsto> Segment (S ''/proj/database/audio/completed/rec1.wav'') (Fin 95) (Fin 12)),
      True, S ''audio_segments/s1/detection_007_CommonCuckoo_0.87_1700000000.wav'', None)"
    by (simp add: segment_eval locked_env_def example_env_def old_segment_fs_def example_fs_def)
  from g overwrite_or_sibling [OF g] show ?thesis by (rule conjI)
qed


section \<open>The outcome of one item\<close>

lemma update_rows:
  "fst (update_detection_paths e tbl i a s) =
     (if update_raises e i then tbl
      else map (\<lambda>r. if det_id r = i then r\<lparr>audio_segment_path := a, spectrogram_path := s\<rparr> else r) tbl)"
  by (simp add: update_detection_paths_def)

lemma update_ok:
  "snd (update_detection_paths e tbl i a s) = (\<not> update_raises e i \<and> 0 < rowcount tbl i)"
  by (simp add: update_detection_paths_def)

lemma render_and_persist_result:
  "fst (snd (render_and_persist e m w d sd cf ok rel))
     = (ok \<and> \<not> update_raises e (det_id d) \<and> 0 < rowcount (rows w) (det_id d))"
  by (auto simp: render_and_persist_def Let_def item_failed_def update_detection_paths_def
      split: prod.splits if_splits)

lemma render_and_persist_update_failed:
  "\<not> (\<not> update_raises e (det_id d) \<and> 0 < rowcount (rows w) (det_id d)) \<Longrightarrow>
     snd (render_and_persist e m w d sd cf ok rel) = (False, UpdateFailed (det_id d))"
  by (auto simp: render_and_persist_def Let_def item_failed_def update_detection_paths_def
      split: prod.splits if_splits)

lemma render_and_persist_rows:
  "\<exists>s. rows (fst (render_and_persist e m w d sd cf ok rel))
     = fst (update_detection_paths e (rows w) (det_id d) (if ok then Some rel else None) s)
     \<and> (\<not> ok \<longrightarrow> s = None)"
  by (auto simp: render_and_persist_def Let_def item_failed_def update_detection_paths_def
      split: prod.splits if_splits)

lemmas prepare_eval = prepare_detection_def validate_file_paths_def missing_fields_def
  is_missing_def time_violations_def find_source_audio_file_def audio_extensions_def
  source_audio_dir_def database_dir_def generate_session_directory_name_def safe_chars_def
  project_root_def database_root_def segments_dir_def spectrograms_dir_def parent_def
  get_common_name_def num_less_def num_le_def strip_def isspace_def parse_time_value_def

lemmas world_eval = example_env_def example_manager_def example_world_def example_fs_def
  example_detection_def example_root_def initial_stats_def

lemma example_prepare:
  "prepare_detection example_env example_manager example_fs example_detection
     = Inr (S ''/proj/database/audio/completed/rec1.wav'', PyFloat (Fin 100), PyFloat (Fin 102),
            S ''s1'', Some 0.873)"
  by (simp add: prepare_eval world_eval segment_eval)

lemma example_segment:
  "generate_segment example_env example_fs (segments_dir example_manager)
      (S ''/proj/database/audio/completed/rec1.wav'') (PyFloat (Fin 100)) (PyFloat (Fin 102))
      (S ''s1'') 7 (Some (S ''Common Cuckoo'')) (Some 0.873)
   = (example_fs(Path (S ''/proj/database/audio_segments/s1/detection_007_CommonCuckoo_0.87.wav'')
        \<mapsto> Segment (S ''/proj/database/audio/completed/rec1.wav'') (Fin 95) (Fin 12)),
      True, S ''audio_segments/s1/detection_007_CommonCuckoo_0.87.wav'', None)"
  by (simp add: prepare_eval world_eval segment_eval Let_def)

lemma example_extracted:
  "audio_extracted example_env example_manager (example_world\<lparr>rows := tbl\<rparr>) example_detection"
proof -
  have f: "files (example_world\<lparr>rows := tbl\<rparr>) = example_fs"
    by (simp add: example_world_def)
  have c: "get_common_name example_detection = Some (S ''Common Cuckoo'')" "det_id example_detection = 7"
    by (simp_all add: get_common_name_def example_detection_def)
  show ?thesis
    unfolding audio_extracted_def extraction_outcome_def f example_prepare
    by (simp add: c example_segment [simplified])
qed

lemma render_and_persist_rows_explicit:
  "rows (fst (render_and_persist e m w d sd cf ok rel))
     = fst (update_detection_paths e (rows w) (det_id d) (if ok then Some rel else None)
         (if enable_spectrogram m \<and> ok
             \<and> fst (snd (generate_spectrogram e (files w) (spectrograms_dir m)
                   (resolve_relative_path (project_root m) rel) sd (det_id d) (get_common_name d) cf))
          then Some (fst (snd (snd (generate_spectrogram e (files w) (spectrograms_dir m)
                   (resolve_relative_path (project_root m) rel) sd (det_id d) (get_common_name d) cf))))
          else None))"
  by (auto simp: render_and_persist_def Let_def item_failed_def split: prod.splits if_splits)

lemma process_detection_rows:
  assumes "prepare_detection e m (files w) d = Inr (src, st, en, sd, cf)"
    and "generate_segment e (files w) (segments_dir m) src st en sd (det_id d)
           (get_common_name d) cf = (fs', ok, rel, err)"
  shows "rows (fst (process_detection e m w d))
       = (if update_raises e (det_id d) then rows w
          else map (\<lambda>r. if det_id r = det_id d
                 then r\<lparr>audio_segment_path := (if ok then Some rel else None),
                        spectrogram_path :=
                          (if enable_spectrogram m \<and> ok
                              \<and> fst (snd (generate_spectrogram e fs' (spectrograms_dir m)
                                    (resolve_relative_path (project_root m) rel) sd (det_id d)
                                    (get_common_name d) cf))
                           then Some (fst (snd (snd (generate_spectrogram e fs' (spectrograms_dir m)
                                    (resolve_relative_path (project_root m) rel) sd (det_id d)
                                    (get_common_name d) cf))))
                           else None)\<rparr>
                 else r) (rows w))"
proof -
  let ?w = "w\<lparr>stats := (stats w)\<lparr>processed_count := processed_count (stats w) + 1\<rparr>, files := fs'\<rparr>"
  have p: "process_detection e m w d = render_and_persist e m ?w d sd cf ok rel"
    using assms by (simp add: process_detection_def)
  have r: "rows ?w = rows w" "files ?w = fs'" by simp_all
  show ?thesis
    unfolding p render_and_persist_rows_explicit r by (simp add: update_rows)
qed

lemma process_detection_rows_unprepared:
  assumes "prepare_detection e m (files w) d = Inl msg"
  shows "process_detection e m w d
       = (w\<lparr>stats := (stats w)\<lparr>processed_count := processed_count (stats w) + 1,
                                error_count := error_count (stats w) + 1,
                                errors := errors (stats w) @ [msg]\<rparr>\<rparr>, False, msg)"
  using assms by (simp add: process_detection_def item_failed_def)

lemma process_detection_verdict:
  "fst (snd (process_detection e m w d))
     = (audio_extracted e m w d \<and> \<not> update_raises e (det_id d)
        \<and> 0 < rowcount (rows w) (det_id d))
   \<and> (audio_extracted e m w d \<and> rowcount (rows w) (det_id d) = 0 \<longrightarrow>
        snd (process_detection e m w d) = (False, UpdateFailed (det_id d)))
   \<and> (rows (fst (process_detection e m w d)) = rows w
       \<or> (\<exists>a s. rows (fst (process_detection e m w d))
                  = fst (update_detection_paths e (rows w) (det_id d) a s)))"
proof (cases "prepare_detection e m (files w) d")
  case (Inl msg)
  then show ?thesis
    by (simp add: process_detection_def audio_extracted_def extraction_outcome_def item_failed_def)
next
  case (Inr args)
  obtain src st en sd cf where args: "args = (src, st, en, sd, cf)" by (cases args)
  obtain fs' ok rel err where g: "generate_segment e (files w) (segments_dir m) src st en sd (det_id d)
                  (get_common_name d) cf = (fs', ok, rel, err)"
    by (metis prod_cases4)
  let ?w = "w\<lparr>stats := (stats w)\<lparr>processed_count := processed_count (stats w) + 1\<rparr>, files := fs'\<rparr>"
  have p: "process_detection e m w d = render_and_persist e m ?w d sd cf ok rel"
    using Inr args g by (simp add: process_detection_def)
  have a: "audio_extracted e m w d = ok"
    using Inr args g by (simp add: audio_extracted_def extraction_outcome_def)
  have r: "rows ?w = rows w" by simp
  from render_and_persist_rows [of e m ?w d sd cf ok rel]
  have 3: "\<exists>a s. rows (fst (process_detection e m w d))
                  = fst (update_detection_paths e (rows w) (det_id d) a s)"
    unfolding p r by blast
  have 1: "fst (snd (process_detection e m w d))
     = (audio_extracted e m w d \<and> \<not> update_raises e (det_id d)
        \<and> 0 < rowcount (rows w) (det_id d))"
    unfolding p a using render_and_persist_result [of e m ?w d sd cf ok rel] by simp
  have 2: "audio_extracted e m w d \<and> rowcount (rows w) (det_id d) = 0 \<longrightarrow>
        snd (process_detection e m w d) = (False, UpdateFailed (det_id d))"
    unfolding p using render_and_persist_update_failed [of e d ?w m sd cf ok rel] by simp
  from 1 2 3 show ?thesis by blast
qed

text \<open>
  C5: the result of an item is a success exactly when its audio extraction succeeded, the
  update of the record did not raise and it affected at least one row, that is, the table
  has a row of the item's id. An item whose extraction succeeded and whose update affects
  no row fails with the message of the failed update. The persist step is one update
  keyed by the id: unless the database raises, every row of the item's id gets both path
  columns set, the audio path to the relative path of the segment (null when the
  extraction failed) and the spectrogram path to that of the image (null when there is
  none), and every other row is left as it is. An item that ends before the audio step
  fails and leaves the table as it is.
\<close>

theorem item_success_iff:
  "fst (snd (process_detection e m w d))
     = (audio_extracted e m w d \<and> \<not> update_raises e (det_id d)
        \<and> 0 < rowcount (rows w) (det_id d))
   \<and> (audio_extracted e m w d \<and> rowcount (rows w) (det_id d) = 0 \<longrightarrow>
        snd (process_detection e m w d) = (False, UpdateFailed (det_id d)))
   \<and> (rows (fst (process_detection e m w d)) = rows w
       \<or> (\<exists>a s. rows (fst (process_detection e m w d))
                  = fst (update_detection_paths e (rows w) (det_id d) a s)))
   \<and> rowcount (rows w) (det_id d) = length (filter (\<lambda>r. det_id r = det_id d) (rows w))
   \<and> (prepare_detection e m (files w) d = Inr (src, st, en, sd, cf)
       \<and> generate_segment e (files w) (segments_dir m) src st en sd (det_id d)
             (get_common_name d) cf = (fs', ok, rel, err) \<longrightarrow>
       fst (snd (process_detection e m w d))
         = (ok \<and> \<not> update_raises e (det_id d)
            \<and> 0 < length (filter (\<lambda>r. det_id r = det_id d) (rows w)))
       \<and> rows (fst (process_detection e m w d))
         = (if update_raises e (det_id d) then rows w
            else map (\<lambda>r. if det_id r = det_id d
                   then r\<lparr>audio_segment_path := (if ok then Some rel else None),
                          spectrogram_path :=
                         (if enable_spectrogram m \<and> ok
                             \<and> fst (snd (generate_spectrogram e fs' (spectrograms_dir m)
                                   (resolve_relative_path (project_root m) rel) sd (det_id d)
                                   (get_common_name d) cf))
                          then Some (fst (snd (snd (generate_spectrogram e fs' (spectrograms_dir m)
                                   (resolve_relative_path (project_root m) rel) sd (det_id d)
                                   (get_common_name d) cf))))
                          else None)\<rparr>
                   else r) (rows w)))
   \<and> (prepare_detection e m (files w) d = Inl msg \<longrightarrow>
       snd (process_detection e m w d) = (False, msg)
       \<and> rows (fst (process_detection e m w d)) = rows w)"
proof -
  note v = process_detection_verdict [of e m w d]
  have c: "rowcount (rows w) (det_id d) = length (filter (\<lambda>r. det_id r = det_id d) (rows w))"
    by (simp add: rowcount_def)
  have x: "prepare_detection e m (files w) d = Inr (src, st, en, sd, cf)
       \<and> generate_segment e (files w) (segments_dir m) src st en sd (det_id d)
             (get_common_name d) cf = (fs', ok, rel, err) \<longrightarrow> audio_extracted e m w d = ok"
    by (simp add: audio_extracted_def extraction_outcome_def)
  have r: "prepare_detection e m (files w) d = Inr (src, st, en, sd, cf)
       \<and> generate_segment e (files w) (segments_dir m) src st en sd (det_id d)
             (get_common_name d) cf = (fs', ok, rel, err) \<longrightarrow>
       rows (fst (process_detection e m w d))
         = (if update_raises e (det_id d) then rows w
            else map (\<lambda>r. if det_id r = det_id d
                   then r\<lparr>audio_segment_path := (if ok then Some rel else None),
                          spectrogram_path :=
                         (if enable_spectrogram m \<and> ok
                             \<and> fst (snd (generate_spectrogram e fs' (spectrograms_dir m)
                                   (resolve_relative_path (project_root m) rel) sd (det_id d)
                                   (get_common_name d) cf))
                          then Some (fst (snd (snd (generate_spectrogram e fs' (spectrograms_dir m)
                                   (resolve_relative_path (project_root m) rel) sd (det_id d)
                                   (get_common_name d) cf))))
                          else None)\<rparr>
                   else r) (rows w))"
    using process_detection_rows [of e m w d src st en sd cf fs' ok rel err] by blast
  have u: "prepare_detection e m (files w) d = Inl msg \<longrightarrow>
       snd (process_detection e m w d) = (False, msg)
       \<and> rows (fst (process_detection e m w d)) = rows w"
    using process_detection_rows_unprepared [of e m w d msg] by simp
  from x v c have y: "prepare_detection e m (files w) d = Inr (src, st, en, sd, cf)
       \<and> generate_segment e (files w) (segments_dir m) src st en sd (det_id d)
             (get_common_name d) cf = (fs', ok, rel, err) \<longrightarrow>
       fst (snd (process_detection e m w d))
         = (ok \<and> \<not> update_raises e (det_id d)
            \<and> 0 < length (filter (\<lambda>r. det_id r = det_id d) (rows w)))"
    by simp
  from v c r u y show ?thesis by blast
qed

theorem item_success_iff_witness:
  "audio_extracted example_env example_manager (example_world\<lparr>rows := []\<rparr>) example_detection
   \<and> rowcount (rows (example_world\<lparr>rows := []\<rparr>)) (det_id example_detection) = 0
   \<and> snd (process_detection example_env example_manager (example_world\<lparr>rows := []\<rparr>) example_detection)
       = (False, UpdateFailed (det_id example_detection))
   \<and> audio_extracted example_env example_manager (example_world\<lparr>rows := [example_detection]\<rparr>) example_detection
   \<and> 0 < rowcount (rows (example_world\<lparr>rows := [example_detection]\<rparr>)) (det_id example_detection)
   \<and> fst (snd (process_detection example_env example_manager
                  (example_world\<lparr>rows := [example_detection]\<rparr>) example_detection))
   \<and> rows (fst (process_detection example_env example_manager example_world example_detection))
       = [example_detection\<lparr>
            audio_segment_path := Some (S ''audio_segments/s1/detection_007_CommonCuckoo_0.87.wav''),
            spectrogram_path := Some (S ''spectrograms/s1/detection_007_CommonCuckoo_0.87.png'')\<rparr>]"
proof -
  let ?fs = "example_fs(Path (S ''/proj/database/audio_segments/s1/detection_007_CommonCuckoo_0.87.wav'')
        \<mapsto> Segment (S ''/proj/database/audio/completed/rec1.wav'') (Fin 95) (Fin 12))"
  have w: "files example_world = example_fs" "rows example_world = [example_detection]"
    by (simp_all add: example_world_def)
  have i: "det_id example_detection = 7"
    "get_common_name example_detection = Some (S ''Common Cuckoo'')"
    by (simp_all add: example_detection_def get_common_name_def)
  have g: "generate_spectrogram example_env ?fs (spectrograms_dir example_manager)
        (resolve_relative_path (project_root example_manager)
           (S ''audio_segments/s1/detection_007_CommonCuckoo_0.87.wav''))
        (S ''s1'') 7 (Some (S ''Common Cuckoo'')) (Some 0.873)
     = (?fs(Path (S ''/proj/database/spectrograms/s1/detection_007_CommonCuckoo_0.87.png'')
          \<mapsto> Spectrogram (S ''/proj/database/audio_segments/s1/detection_007_CommonCuckoo_0.87.wav'')),
        True, S ''spectrograms/s1/detection_007_CommonCuckoo_0.87.png'', None)"
    by (simp add: prepare_eval world_eval segment_eval generate_spectrogram_def
        spectrogram_filename_def resolve_relative_path_def replace_def os_sep_def Let_def)
  have m: "enable_spectrogram example_manager" "\<not> update_raises example_env 7"
    by (simp_all add: example_manager_def example_env_def)
  note t = item_success_iff [of example_env example_manager example_world example_detection
      "S ''/proj/database/audio/completed/rec1.wav''" "PyFloat (Fin 100)" "PyFloat (Fin 102)"
      "S ''s1''" "Some 0.873" ?fs True
      "S ''audio_segments/s1/detection_007_CommonCuckoo_0.87.wav''" None]
  have h: "prepare_detection example_env example_manager (files example_world) example_detection
       = Inr (S ''/proj/database/audio/completed/rec1.wav'', PyFloat (Fin 100), PyFloat (Fin 102),
              S ''s1'', Some 0.873)
     \<and> generate_segment example_env (files example_world) (segments_dir example_manager)
         (S ''/proj/database/audio/completed/rec1.wav'') (PyFloat (Fin 100)) (PyFloat (Fin 102))
         (S ''s1'') (det_id example_detection) (get_common_name example_detection) (Some 0.873)
       = (?fs, True, S ''audio_segments/s1/detection_007_CommonCuckoo_0.87.wav'', None)"
    unfolding w i by (simp add: example_prepare example_segment [simplified])
  note t5 = t [THEN conjunct2, THEN conjunct2, THEN conjunct2, THEN conjunct2, THEN conjunct1,
      THEN mp, OF h, THEN conjunct2]
  have "rows (fst (process_detection example_env example_manager example_world example_detection))
       = [example_detection\<lparr>
            audio_segment_path := Some (S ''audio_segments/s1/detection_007_CommonCuckoo_0.87.wav''),
            spectrogram_path := Some (S ''spectrograms/s1/detection_007_CommonCuckoo_0.87.png'')\<rparr>]"
    unfolding t5 by (simp add: w i g [simplified] m)
  note rw = this
  have r: "rowcount (rows (example_world\<lparr>rows := []\<rparr>)) (det_id example_detection) = 0"
    "0 < rowcount (rows (example_world\<lparr>rows := [example_detection]\<rparr>)) (det_id example_detection)"
    "\<not> update_raises example_env (det_id example_detection)"
    by (simp_all add: rowcount_def example_env_def)
  note t0 = item_success_iff [of example_env example_manager "example_world\<lparr>rows := []\<rparr>"
      example_detection]
  note t1 = item_success_iff [of example_env example_manager
      "example_world\<lparr>rows := [example_detection]\<rparr>" example_detection]
  from t0 [THEN conjunct2, THEN conjunct1] t1 [THEN conjunct1] example_extracted r rw
  show ?thesis by blast
qed


section \<open>Spectrogram failure, and audio failure\<close>

lemma render_and_persist_audio_failed:
  "render_and_persist e m w d sd cf False rel =
     (let w3 = w\<lparr>rows := fst (update_detection_paths e (rows w) (det_id d) None None)\<rparr>
      in if snd (update_detection_paths e (rows w) (det_id d) None None)
         then item_failed w3 (AudioFailed (det_id d))
         else item_failed w3 (UpdateFailed (det_id d)))"
  by (simp add: render_and_persist_def Let_def split: prod.splits)

lemma render_and_persist_without_spectrogram:
  assumes "enable_spectrogram m \<longrightarrow>
             \<not> fst (snd (generate_spectrogram e (files w) (spectrograms_dir m)
                   (resolve_relative_path (project_root m) rel) sd (det_id d) (get_common_name d) cf))"
    and "\<not> update_raises e (det_id d)" and "0 < rowcount (rows w) (det_id d)"
  shows "snd (render_and_persist e m w d sd cf True rel) = (True, Completed (det_id d) True False)
    \<and> rows (fst (render_and_persist e m w d sd cf True rel))
        = map (\<lambda>r. if det_id r = det_id d
                   then r\<lparr>audio_segment_path := Some rel, spectrogram_path := None\<rparr> else r) (rows w)
    \<and> stats (fst (render_and_persist e m w d sd cf True rel))
        = (stats w)\<lparr>audio_success := audio_success (stats w) + 1,
                     success_count := success_count (stats w) + 1\<rparr>"
  using assms
  by (auto simp: render_and_persist_def Let_def update_detection_paths_def split: prod.splits)

lemmas env_eval = no_render_env_def no_decode_env_def db_locked_env_def processed_detection_def
  processed_world_def

lemmas spectrogram_eval = generate_spectrogram_def spectrogram_filename_def
  resolve_relative_path_def replace_def os_sep_def

text \<open>
  C1 (as amended): for a detection that passes validation, the source lookup and the audio
  extraction, if the spectrogram is disabled or its generation fails, and the update of
  the record does not raise and affects a row, the item is a success: the audio path is
  written to the rows of that id, their spectrogram path is null, and the item is counted
  in \<open>success_count\<close> and not in \<open>error_count\<close>.
\<close>

theorem spectrogram_optional:
  assumes "prepare_detection e m (files w) d = Inr (src, st, en, sd, cf)"
    and "generate_segment e (files w) (segments_dir m) src st en sd (det_id d)
           (get_common_name d) cf = (fs', True, rel, err)"
    and "enable_spectrogram m \<longrightarrow>
           \<not> fst (snd (generate_spectrogram e fs' (spectrograms_dir m)
                 (resolve_relative_path (project_root m) rel) sd (det_id d) (get_common_name d) cf))"
    and "\<not> update_raises e (det_id d)" and "0 < rowcount (rows w) (det_id d)"
  shows "snd (process_detection e m w d) = (True, Completed (det_id d) True False)
    \<and> rows (fst (process_detection e m w d))
        = map (\<lambda>r. if det_id r = det_id d
                   then r\<lparr>audio_segment_path := Some rel, spectrogram_path := None\<rparr> else r) (rows w)
    \<and> success_count (stats (fst (process_detection e m w d))) = success_count (stats w) + 1
    \<and> audio_success (stats (fst (process_detection e m w d))) = audio_success (stats w) + 1
    \<and> spectrogram_success (stats (fst (process_detection e m w d))) = spectrogram_success (stats w)
    \<and> error_count (stats (fst (process_detection e m w d))) = error_count (stats w)
    \<and> errors (stats (fst (process_detection e m w d))) = errors (stats w)"
proof -
  let ?w = "w\<lparr>stats := (stats w)\<lparr>processed_count := processed_count (stats w) + 1\<rparr>, files := fs'\<rparr>"
  have p: "process_detection e m w d = render_and_persist e m ?w d sd cf True rel"
    using assms(1,2) by (simp add: process_detection_def)
  have "enable_spectrogram m \<longrightarrow>
             \<not> fst (snd (generate_spectrogram e (files ?w) (spectrograms_dir m)
                   (resolve_relative_path (project_root m) rel) sd (det_id d) (get_common_name d) cf))"
    using assms(3) by simp
  moreover have "0 < rowcount (rows ?w) (det_id d)" using assms(5) by simp
  ultimately show ?thesis
    unfolding p
    using render_and_persist_without_spectrogram [of m e ?w rel sd d cf] assms(4) by simp
qed

theorem spectrogram_optional_witness:
  "prepare_detection no_render_env example_manager (files example_world) example_detection
     = Inr (S ''/proj/database/audio/completed/rec1.wav'', PyFloat (Fin 100), PyFloat (Fin 102),
            S ''s1'', Some 0.873)
   \<and> generate_segment no_render_env (files example_world) (segments_dir example_manager)
        (S ''/proj/database/audio/completed/rec1.wav'') (PyFloat (Fin 100)) (PyFloat (Fin 102))
        (S ''s1'') (det_id example_detection) (get_common_name example_detection) (Some 0.873)
     = (example_fs(Path (S ''/proj/database/audio_segments/s1/detection_007_CommonCuckoo_0.87.wav'')
          \<mapsto> Segment (S ''/proj/database/audio/completed/rec1.wav'') (Fin 95) (Fin 12)),
        True, S ''audio_segments/s1/detection_007_CommonCuckoo_0.87.wav'', None)
   \<and> enable_spectrogram example_manager
   \<and> \<not> fst (snd (generate_spectrogram no_render_env
          (example_fs(Path (S ''/proj/database/audio_segments/s1/detection_007_CommonCuckoo_0.87.wav'')
             \<mapsto> Segment (S ''/proj/database/audio/completed/rec1.wav'') (Fin 95) (Fin 12)))
          (spectrograms_dir example_manager)
          (resolve_relative_path (project_root example_manager)
             (S ''audio_segments/s1/detection_007_CommonCuckoo_0.87.wav''))
          (S ''s1'') (det_id example_detection) (get_common_name example_detection) (Some 0.873)))
   \<and> \<not> update_raises no_render_env (det_id example_detection)
   \<and> 0 < rowcount (rows example_world) (det_id example_detection)
   \<and> snd (process_detection no_render_env example_manager example_world example_detection)
        = (True, Completed 7 True False)
   \<and> rows (fst (process_detection no_render_env example_manager example_world example_detection))
        = [example_detection\<lparr>audio_segment_path :=
              Some (S ''audio_segments/s1/detection_007_CommonCuckoo_0.87.wav''),
            spectrogram_path := None\<rparr>]
   \<and> success_count (stats (fst (process_detection no_render_env example_manager example_world
         example_detection))) = 1
   \<and> error_count (stats (fst (process_detection no_render_env example_manager example_world
         example_detection))) = 0"
proof -
  have a: "prepare_detection no_render_env example_manager (files example_world) example_detection
     = Inr (S ''/proj/database/audio/completed/rec1.wav'', PyFloat (Fin 100), PyFloat (Fin 102),
            S ''s1'', Some 0.873)"
    by (simp add: prepare_eval world_eval segment_eval env_eval)
  have b: "generate_segment no_render_env (files example_world) (segments_dir example_manager)
        (S ''/proj/database/audio/completed/rec1.wav'') (PyFloat (Fin 100)) (PyFloat (Fin 102))
        (S ''s1'') (det_id example_detection) (get_common_name example_detection) (Some 0.873)
     = (example_fs(Path (S ''/proj/database/audio_segments/s1/detection_007_CommonCuckoo_0.87.wav'')
          \<mapsto> Segment (S ''/proj/database/audio/completed/rec1.wav'') (Fin 95) (Fin 12)),
        True, S ''audio_segments/s1/detection_007_CommonCuckoo_0.87.wav'', None)"
    by (simp add: prepare_eval world_eval segment_eval env_eval Let_def)
  have c: "enable_spectrogram example_manager"
    "\<not> fst (snd (generate_spectrogram no_render_env
          (example_fs(Path (S ''/proj/database/audio_segments/s1/detection_007_CommonCuckoo_0.87.wav'')
             \<mapsto> Segment (S ''/proj/database/audio/completed/rec1.wav'') (Fin 95) (Fin 12)))
          (spectrograms_dir example_manager)
          (resolve_relative_path (project_root example_manager)
             (S ''audio_segments/s1/detection_007_CommonCuckoo_0.87.wav''))
          (S ''s1'') (det_id example_detection) (get_common_name example_detection) (Some 0.873)))"
    by (simp_all add: prepare_eval world_eval segment_eval env_eval spectrogram_eval Let_def)
  have d: "\<not> update_raises no_render_env (det_id example_detection)"
    "0 < rowcount (rows example_world) (det_id example_detection)"
    by (simp_all add: world_eval env_eval rowcount_def)
  have i: "det_id example_detection = 7" "rows example_world = [example_detection]"
    "success_count (stats example_world) = 0" "error_count (stats example_world) = 0"
    by (simp_all add: world_eval)
  from spectrogram_optional [OF a b _ d] c a b d i show ?thesis by simp
qed

text \<open>
  The claim as worded needs nothing of the update. With the spectrogram disabled and a
  database that raises on the update, the single-item entry point extracts the audio of
  detection 7 and still reports a failure, counted in \<open>error_count\<close>; the row keeps its
  null paths.
\<close>

theorem spectrogram_optional_counterexample:
  "audio_extracted db_locked_env (example_manager\<lparr>enable_spectrogram := False\<rparr>) example_world
     example_detection
   \<and> \<not> enable_spectrogram (example_manager\<lparr>enable_spectrogram := False\<rparr>)
   \<and> snd (process_single_detection db_locked_env (example_manager\<lparr>enable_spectrogram := False\<rparr>)
            example_world 7) = (False, UpdateFailed 7)
   \<and> success_count (stats (fst (process_single_detection db_locked_env
        (example_manager\<lparr>enable_spectrogram := False\<rparr>) example_world 7))) = 0
   \<and> error_count (stats (fst (process_single_detection db_locked_env
        (example_manager\<lparr>enable_spectrogram := False\<rparr>) example_world 7))) = 1
   \<and> rows (fst (process_single_detection db_locked_env
        (example_manager\<lparr>enable_spectrogram := False\<rparr>) example_world 7)) = [example_detection]"
proof -
  let ?m = "example_manager\<lparr>enable_spectrogram := False\<rparr>"
  have a: "prepare_detection db_locked_env ?m example_fs example_detection
     = Inr (S ''/proj/database/audio/completed/rec1.wav'', PyFloat (Fin 100), PyFloat (Fin 102),
            S ''s1'', Some 0.873)"
    by (simp add: prepare_eval world_eval segment_eval env_eval)
  have b: "generate_segment db_locked_env example_fs (segments_dir ?m)
        (S ''/proj/database/audio/completed/rec1.wav'') (PyFloat (Fin 100)) (PyFloat (Fin 102))
        (S ''s1'') 7 (Some (S ''Common Cuckoo'')) (Some 0.873)
     = (example_fs(Path (S ''/proj/database/audio_segments/s1/detection_007_CommonCuckoo_0.87.wav'')
          \<mapsto> Segment (S ''/proj/database/audio/completed/rec1.wav'') (Fin 95) (Fin 12)),
        True, S ''audio_segments/s1/detection_007_CommonCuckoo_0.87.wav'', None)"
    by (simp add: prepare_eval world_eval segment_eval env_eval Let_def)
  have i: "files example_world = example_fs" "det_id example_detection = 7"
    "get_common_name example_detection = Some (S ''Common Cuckoo'')"
    "rows example_world = [example_detection]" "stats example_world = initial_stats"
    by (simp_all add: example_world_def example_detection_def get_common_name_def)
  have g: "get_detection_by_id db_locked_env (rows example_world) 7 = Some example_detection"
    by (simp add: get_detection_by_id_def i env_eval example_env_def)
  have x: "audio_extracted db_locked_env ?m example_world example_detection"
    unfolding audio_extracted_def extraction_outcome_def i a
    by (simp add: i b [simplified])
  have pd: "process_detection db_locked_env ?m example_world example_detection
     = render_and_persist db_locked_env ?m
         (example_world\<lparr>stats := initial_stats\<lparr>processed_count := 1\<rparr>,
            files := example_fs(Path (S ''/proj/database/audio_segments/s1/detection_007_CommonCuckoo_0.87.wav'')
              \<mapsto> Segment (S ''/proj/database/audio/completed/rec1.wav'') (Fin 95) (Fin 12))\<rparr>)
         example_detection (S ''s1'') (Some 0.873) True
         (S ''audio_segments/s1/detection_007_CommonCuckoo_0.87.wav'')"
    unfolding process_detection_def
    by (simp add: i a b [simplified] initial_stats_def)
  have u: "update_raises db_locked_env 7" "\<not> enable_spectrogram ?m"
    by (simp_all add: env_eval)
  have p: "process_single_detection db_locked_env ?m example_world 7
     = (example_world\<lparr>files := example_fs(Path (S ''/proj/database/audio_segments/s1/detection_007_CommonCuckoo_0.87.wav'')
          \<mapsto> Segment (S ''/proj/database/audio/completed/rec1.wav'') (Fin 95) (Fin 12)),
         stats := initial_stats\<lparr>processed_count := 1, audio_success := 1, error_count := 1,
                    errors := [UpdateFailed 7]\<rparr>\<rparr>, False, UpdateFailed 7)"
  proof -
    have "process_single_detection db_locked_env ?m example_world 7
            = process_detection db_locked_env ?m example_world example_detection"
      by (simp add: process_single_detection_def g)
    then show ?thesis
      unfolding pd
      by (simp add: i u render_and_persist_def update_detection_paths_def item_failed_def
          example_world_def initial_stats_def Let_def)
  qed
  show ?thesis
    unfolding p using x u by (simp add: i initial_stats_def)
qed

text \<open>
  C6: when the audio extraction of an item that passed validation and the source lookup
  fails, the manager still runs the update, with null for both paths: the table after the
  item is the table after that update, and the item fails. When the update does not
  raise, every row of that id has both paths null afterwards, whatever it held before.
\<close>

theorem audio_failure_nulls_paths:
  assumes "prepare_detection e m (files w) d = Inr (src, st, en, sd, cf)"
    and "generate_segment e (files w) (segments_dir m) src st en sd (det_id d)
           (get_common_name d) cf = (fs', False, rel, err)"
  shows "rows (fst (process_detection e m w d))
           = fst (update_detection_paths e (rows w) (det_id d) None None)
    \<and> \<not> fst (snd (process_detection e m w d))
    \<and> (\<not> update_raises e (det_id d) \<longrightarrow>
          rows (fst (process_detection e m w d))
            = map (\<lambda>r. if det_id r = det_id d
                       then r\<lparr>audio_segment_path := None, spectrogram_path := None\<rparr> else r) (rows w))
    \<and> (\<not> update_raises e (det_id d) \<longrightarrow>
          (\<forall>r\<in>set (rows (fst (process_detection e m w d))).
              det_id r = det_id d \<longrightarrow> audio_segment_path r = None \<and> spectrogram_path r = None))"
proof -
  let ?w = "w\<lparr>stats := (stats w)\<lparr>processed_count := processed_count (stats w) + 1\<rparr>, files := fs'\<rparr>"
  have p: "process_detection e m w d = render_and_persist e m ?w d sd cf False rel"
    using assms by (simp add: process_detection_def)
  have 1: "rows (fst (process_detection e m w d))
           = fst (update_detection_paths e (rows w) (det_id d) None None)"
    "\<not> fst (snd (process_detection e m w d))"
    unfolding p render_and_persist_audio_failed by (simp_all add: Let_def item_failed_def)
  have 2: "\<not> update_raises e (det_id d) \<Longrightarrow> rows (fst (process_detection e m w d))
            = map (\<lambda>r. if det_id r = det_id d
                       then r\<lparr>audio_segment_path := None, spectrogram_path := None\<rparr> else r) (rows w)"
    unfolding 1 by (simp add: update_rows)
  have 3: "\<not> update_raises e (det_id d) \<Longrightarrow> (\<forall>r\<in>set (rows (fst (process_detection e m w d))).
              det_id r = det_id d \<longrightarrow> audio_segment_path r = None \<and> spectrogram_path r = None)"
    by (auto simp: 2)
  from 1 2 3 show ?thesis by blast
qed

theorem audio_failure_nulls_paths_witness:
  "prepare_detection no_decode_env example_manager (files processed_world) processed_detection
     = Inr (S ''/proj/database/audio/completed/rec1.wav'', PyFloat (Fin 100), PyFloat (Fin 102),
            S ''s1'', Some 0.873)
   \<and> generate_segment no_decode_env (files processed_world) (segments_dir example_manager)
        (S ''/proj/database/audio/completed/rec1.wav'') (PyFloat (Fin 100)) (PyFloat (Fin 102))
        (S ''s1'') (det_id processed_detection) (get_common_name processed_detection) (Some 0.873)
     = (example_fs, False, [], Some SegmentFailed)
   \<and> \<not> update_raises no_decode_env (det_id processed_detection)
   \<and> audio_segment_path (hd (rows processed_world))
        = Some (S ''audio_segments/s1/detection_007_CommonCuckoo_0.87.wav'')
   \<and> rows (fst (process_detection no_decode_env example_manager processed_world processed_detection))
        = [processed_detection\<lparr>audio_segment_path := None, spectrogram_path := None\<rparr>]
   \<and> \<not> fst (snd (process_detection no_decode_env example_manager processed_world processed_detection))"
proof -
  have a: "prepare_detection no_decode_env example_manager (files processed_world) processed_detection
     = Inr (S ''/proj/database/audio/completed/rec1.wav'', PyFloat (Fin 100), PyFloat (Fin 102),
            S ''s1'', Some 0.873)"
    by (simp add: prepare_eval world_eval segment_eval env_eval)
  have b: "generate_segment no_decode_env (files processed_world) (segments_dir example_manager)
        (S ''/proj/database/audio/completed/rec1.wav'') (PyFloat (Fin 100)) (PyFloat (Fin 102))
        (S ''s1'') (det_id processed_detection) (get_common_name processed_detection) (Some 0.873)
     = (example_fs, False, [], Some SegmentFailed)"
    by (simp add: prepare_eval world_eval segment_eval env_eval Let_def)
  have d: "\<not> update_raises no_decode_env (det_id processed_detection)"
    "audio_segment_path (hd (rows processed_world))
        = Some (S ''audio_segments/s1/detection_007_CommonCuckoo_0.87.wav'')"
    "rows processed_world = [processed_detection]"
    by (simp_all add: world_eval env_eval)
  from audio_failure_nulls_paths [OF a b] d
  have r: "rows (fst (process_detection no_decode_env example_manager processed_world processed_detection))
        = [processed_detection\<lparr>audio_segment_path := None, spectrogram_path := None\<rparr>]"
    "\<not> fst (snd (process_detection no_decode_env example_manager processed_world processed_detection))"
    by (simp_all add: update_rows)
  from a b d(1,2) r show ?thesis by blast
qed


section \<open>A failing item in a bulk run\<close>



































end
